theory Spec2Isabelle
  imports Complex_Main "HOL-Library.Word" "HOL-Library.Signed_Division" "HOL-Library.Log_Nat"
begin

section \<open>Go strings: the functions of package strings that the program calls\<close>

text \<open>
  A Go string is a sequence of bytes; \<open>string\<close> (a list of \<open>char\<close>) is the same.
  \<open>strings.Index\<close> returns the position of the first occurrence of \<open>substr\<close>, or -1
  (\<open>None\<close>). \<open>strings.Split\<close> cuts at the leftmost occurrence of the separator, then
  goes on in the text after that occurrence, so the occurrences it cuts at never
  overlap. With the empty separator Go splits after each UTF-8 sequence; the program
  never passes one, and the model gives the bytes one by one there.
\<close>

fun HasPrefix :: "string \<Rightarrow> string \<Rightarrow> bool" where
  "HasPrefix s [] = True"
| "HasPrefix [] (p # ps) = False"
| "HasPrefix (c # cs) (p # ps) = (c = p \<and> HasPrefix cs ps)"

fun Index :: "string \<Rightarrow> string \<Rightarrow> nat option" where
  "Index [] substr = (if substr = [] then Some 0 else None)"
| "Index (c # cs) substr =
     (if HasPrefix (c # cs) substr then Some 0 else map_option Suc (Index cs substr))"

definition Contains :: "string \<Rightarrow> string \<Rightarrow> bool" where
  "Contains s substr = (Index s substr \<noteq> None)"

function Split :: "string \<Rightarrow> string \<Rightarrow> string list" where
  "Split s sep =
     (if sep = [] then map (\<lambda>c. [c]) s
      else case Index s sep of
             None \<Rightarrow> [s]
           | Some m \<Rightarrow> take m s # Split (drop (m + length sep) s) sep)"
  by pat_completeness auto
termination
proof (relation "measure (\<lambda>(s, sep). length s)")
  show "wf (measure (\<lambda>(s, sep). length s))" by simp
next
  fix s sep :: string and m :: nat
  assume sep: "sep \<noteq> []" and idx: "Index s sep = Some m"
  have pre: "HasPrefix t p \<Longrightarrow> length p \<le> length t" for t p
    by (induction t p rule: HasPrefix.induct) auto
  have "Index t sep = Some k \<Longrightarrow> k + length sep \<le> length t" for t k
  proof (induction t arbitrary: k)
    case Nil
    then show ?case by (simp split: if_splits)
  next
    case (Cons c cs)
    then show ?case using pre [of "c # cs" sep]
      by (auto split: if_splits)
  qed
  from this [OF idx] sep
  show "((drop (m + length sep) s, sep), (s, sep)) \<in> measure (\<lambda>(s, sep). length s)"
    by (cases sep) auto
qed

declare Split.simps [simp del]

section \<open>Failures\<close>

text \<open>
  \<open>Errorf f args\<close> is the error value that \<open>fmt.Errorf(f, args...)\<close> makes, kept as
  its format and its arguments. \<open>Panicked\<close> is a run-time panic of the call.
\<close>

datatype panic = NilDereference | IndexOutOfRange

datatype failure = Errorf string "string list" | Panicked panic

section \<open>Ref-Graph: the per-stream reference bookkeeping of pkg/stream\<close>

text \<open>
  A \<open>StreamRef\<close> is a Go interface value with the single method \<open>UUID()\<close>. The nil
  interface is \<open>NilRef\<close>; a non-nil one is \<open>Ref u a\<close>: \<open>u\<close> is what its \<open>UUID()\<close>
  returns and \<open>a\<close> tells apart two objects that answer the same identity.
  Calling a method on the nil interface panics.
\<close>

datatype StreamRef = NilRef | Ref string nat

fun StreamRef_UUID :: "StreamRef \<Rightarrow> panic + string" where
  "StreamRef_UUID NilRef = Inl NilDereference"
| "StreamRef_UUID (Ref u a) = Inr u"

datatype StreamCreationSource =
  UnknownStreamCreationSourceSchema
| StreamCreationSourceSchema string

fun GetSourceName :: "StreamCreationSource \<Rightarrow> string" where
  "GetSourceName UnknownStreamCreationSourceSchema = ''no source info''"
| "GetSourceName (StreamCreationSourceSchema n) = n"

text \<open>
  \<open>time.Time\<close> is an instant on the clock; the model only stores and compares instants.
  The two maps are the allocated maps that \<open>NewStreamMeta\<close> makes, the only
  constructor of a \<open>StreamMetaSchema\<close> in the package.
\<close>

type_synonym time = int

record StreamMetaSchema =
  CreationSource :: StreamCreationSource
  LastUpdated :: time
  ParentRefs :: "string \<rightharpoonup> StreamRef"
  LabelledRefs :: "string \<rightharpoonup> StreamRef"

definition NewStreamMeta :: "time \<Rightarrow> StreamMetaSchema" where
  "NewStreamMeta now =
     \<lparr> CreationSource = UnknownStreamCreationSourceSchema,
       LastUpdated = now,
       ParentRefs = Map.empty,
       LabelledRefs = Map.empty \<rparr>"

definition SetLastUpdated :: "StreamMetaSchema \<Rightarrow> time \<Rightarrow> StreamMetaSchema" where
  "SetLastUpdated s t = s\<lparr>LastUpdated := t\<rparr>"

definition GetLastUpdated :: "StreamMetaSchema \<Rightarrow> time" where
  "GetLastUpdated s = LastUpdated s"

text \<open>
  \<open>GetParentRefs\<close> ranges over the map, whose iteration order Go leaves open: the
  result is given as the set of its members.
\<close>

definition GetParentRefs :: "StreamMetaSchema \<Rightarrow> StreamRef set" where
  "GetParentRefs s = ran (ParentRefs s)"

definition AddParentRef :: "StreamMetaSchema \<Rightarrow> StreamRef \<Rightarrow> panic + (StreamMetaSchema \<times> bool)" where
  "AddParentRef s ref =
     (case StreamRef_UUID ref of
        Inl p \<Rightarrow> Inl p
      | Inr k \<Rightarrow>
          (case ParentRefs s k of
             Some _ \<Rightarrow> Inr (s, False)
           | None \<Rightarrow> Inr (s\<lparr>ParentRefs := (ParentRefs s)(k \<mapsto> ref)\<rparr>, True)))"

definition RemoveParentRef :: "StreamMetaSchema \<Rightarrow> StreamRef \<Rightarrow> panic + (StreamMetaSchema \<times> bool)" where
  "RemoveParentRef s ref =
     (case StreamRef_UUID ref of
        Inl p \<Rightarrow> Inl p
      | Inr k \<Rightarrow>
          (case ParentRefs s k of
             Some _ \<Rightarrow> Inr (s\<lparr>ParentRefs := (ParentRefs s)(k := None)\<rparr>, True)
           | None \<Rightarrow> Inr (s, False)))"

definition SetLabelledRef :: "StreamMetaSchema \<Rightarrow> string \<Rightarrow> StreamRef \<Rightarrow> StreamMetaSchema \<times> bool" where
  "SetLabelledRef s key val =
     (case LabelledRefs s key of
        Some _ \<Rightarrow> (s\<lparr>LabelledRefs := (LabelledRefs s)(key \<mapsto> val)\<rparr>, False)
      | None \<Rightarrow> (s\<lparr>LabelledRefs := (LabelledRefs s)(key \<mapsto> val)\<rparr>, True))"

definition GetLabelledRef :: "StreamMetaSchema \<Rightarrow> string \<Rightarrow> StreamRef \<times> bool" where
  "GetLabelledRef s key =
     (case LabelledRefs s key of
        Some ref \<Rightarrow> (ref, True)
      | None \<Rightarrow> (NilRef, False))"

definition RemoveLabelledRef :: "StreamMetaSchema \<Rightarrow> string \<Rightarrow> StreamMetaSchema \<times> bool" where
  "RemoveLabelledRef s key =
     (case LabelledRefs s key of
        Some _ \<Rightarrow> (s\<lparr>LabelledRefs := (LabelledRefs s)(key := None)\<rparr>, True)
      | None \<Rightarrow> (s, False))"

section \<open>Streams: pkg/stream\<close>

definition STREAM_TYPE_YOUTUBE :: string where "STREAM_TYPE_YOUTUBE = ''youtube''"
definition STREAM_TYPE_LOCAL :: string where "STREAM_TYPE_LOCAL = ''movie''"
definition STREAM_TYPE_REMOTE :: string where "STREAM_TYPE_REMOTE = ''movie''"
definition STREAM_TYPE_TWITCH :: string where "STREAM_TYPE_TWITCH = ''twitch''"
definition STREAM_TYPE_TWITCH_CLIP :: string where "STREAM_TYPE_TWITCH_CLIP = ''twitch#clip''"
definition STREAM_TYPE_SOUNDCLOUD :: string where "STREAM_TYPE_SOUNDCLOUD = ''soundcloud''"

text \<open>
  A \<open>float64\<close> is given by the real number it denotes. \<open>Meta\<close> is the
  \<open>StreamMetaSchema\<close> that every factory allocates with \<open>NewStreamMeta\<close>.
\<close>

record StreamSchema =
  Kind :: string
  Name :: string
  Url :: string
  Duration :: real
  Thumbnail :: string
  Meta :: StreamMetaSchema

definition GetStreamURL :: "StreamSchema \<Rightarrow> string" where
  "GetStreamURL s = Url s"

definition UUID :: "StreamSchema \<Rightarrow> string" where
  "UUID s = Url s"

definition GetName :: "StreamSchema \<Rightarrow> string" where
  "GetName s = Name s"

definition GetKind :: "StreamSchema \<Rightarrow> string" where
  "GetKind s = Kind s"

definition GetDuration :: "StreamSchema \<Rightarrow> real" where
  "GetDuration s = Duration s"

definition Metadata :: "StreamSchema \<Rightarrow> StreamMetaSchema" where
  "Metadata s = Meta s"

text \<open>
  The values of the interface \<open>Stream\<close>: a \<open>StreamSchema\<close> itself, or one of the six
  variants that embed a \<open>StreamSchema\<close> (some with an API key). No variant declares
  \<open>UUID\<close> or \<open>GetStreamURL\<close> of its own, so both are the promoted methods of the
  embedded schema.
\<close>

datatype Stream =
  BareStreamSchema StreamSchema
| YouTubeStream string StreamSchema
| LocalVideoStream StreamSchema
| RemoteVideoStream StreamSchema
| TwitchStream StreamSchema string
| TwitchClipStream StreamSchema string
| SoundCloudStream StreamSchema string

fun embedded :: "Stream \<Rightarrow> StreamSchema" where
  "embedded (BareStreamSchema s) = s"
| "embedded (YouTubeStream apiKey s) = s"
| "embedded (LocalVideoStream s) = s"
| "embedded (RemoteVideoStream s) = s"
| "embedded (TwitchStream s apiKey) = s"
| "embedded (TwitchClipStream s apiKey) = s"
| "embedded (SoundCloudStream s apiKey) = s"

definition Stream_UUID :: "Stream \<Rightarrow> string" where
  "Stream_UUID st = UUID (embedded st)"

definition Stream_GetStreamURL :: "Stream \<Rightarrow> string" where
  "Stream_GetStreamURL st = GetStreamURL (embedded st)"

subsection \<open>Identifiers from URLs\<close>

text \<open>
  \<open>regexp.MatchString("watch\\?v=", lastSeg)\<close> asks whether the literal text
  \<open>watch?v=\<close> occurs in \<open>lastSeg\<close> (the pattern is that literal with its question mark
  escaped, and is not anchored): it is \<open>Contains\<close>. An index expression out of range
  panics.
\<close>

definition ytVideoIdFromUrl :: "string \<Rightarrow> failure + string" where
  "ytVideoIdFromUrl videoUrl =
     (let segs = Split videoUrl ''/'' in
      if length segs < 2 then Inl (Errorf ''invalid url'' [])
      else
        let lastSeg = segs ! (length segs - 1) in
        if Contains lastSeg ''watch?v='' then
          (let idSegs = Split lastSeg ''watch?v='' in
           if length idSegs < 2 then Inl (Panicked IndexOutOfRange)
           else
             let ampSegs = Split (idSegs ! 1) ''&'' in
             if length ampSegs > 1 then Inr (ampSegs ! 0)
             else Inr (idSegs ! 1))
        else Inr lastSeg)"

definition twitchVideoIdFromUrl :: "string \<Rightarrow> failure + string" where
  "twitchVideoIdFromUrl videoUrl =
     (let segs = Split videoUrl ''/videos/'' in
      if length segs \<noteq> 2 then Inl (Errorf ''invalid url'' [])
      else Inr (segs ! 1))"

subsection \<open>Factories\<close>

text \<open>
  \<open>now\<close> is what \<open>time.Now()\<close> returns at the call; the API keys are the values of
  package \<open>apiconfig\<close>.
\<close>

definition NewYouTubeStream :: "time \<Rightarrow> string \<Rightarrow> string \<Rightarrow> panic + Stream" where
  "NewYouTubeStream now YT_API_KEY videoUrl =
     (let segs = Split videoUrl ''&'';
          videoUrl' = (if length segs > 1 then segs ! 0 else videoUrl)
      in case ytVideoIdFromUrl videoUrl' of
           Inl (Panicked p) \<Rightarrow> Inl p
         | r \<Rightarrow>
             Inr (YouTubeStream YT_API_KEY
               \<lparr> Kind = STREAM_TYPE_YOUTUBE, Name = '''', Url = videoUrl', Duration = 0,
                 Thumbnail =
                   (case r of
                      Inr ident \<Rightarrow> ''https://img.youtube.com/vi/'' @ ident @ ''/default.jpg''
                    | Inl _ \<Rightarrow> ''''),
                 Meta = NewStreamMeta now \<rparr>))"

definition NewLocalVideoStream :: "time \<Rightarrow> string \<Rightarrow> Stream" where
  "NewLocalVideoStream now filepath =
     LocalVideoStream
       \<lparr> Kind = STREAM_TYPE_LOCAL, Name = '''', Url = filepath, Duration = 0,
         Thumbnail = '''', Meta = NewStreamMeta now \<rparr>"

definition NewRemoteVideoStream :: "time \<Rightarrow> string \<Rightarrow> Stream" where
  "NewRemoteVideoStream now url =
     RemoteVideoStream
       \<lparr> Kind = STREAM_TYPE_REMOTE, Name = '''', Url = url, Duration = 0,
         Thumbnail = '''', Meta = NewStreamMeta now \<rparr>"

definition NewTwitchStream :: "time \<Rightarrow> string \<Rightarrow> string \<Rightarrow> Stream" where
  "NewTwitchStream now TWITCH_API_KEY videoUrl =
     TwitchStream
       \<lparr> Kind = STREAM_TYPE_TWITCH, Name = '''', Url = videoUrl, Duration = 0,
         Thumbnail = '''', Meta = NewStreamMeta now \<rparr>
       TWITCH_API_KEY"

definition NewTwitchClipStream :: "time \<Rightarrow> string \<Rightarrow> string \<Rightarrow> Stream" where
  "NewTwitchClipStream now TWITCH_API_KEY videoUrl =
     TwitchClipStream
       \<lparr> Kind = STREAM_TYPE_TWITCH_CLIP, Name = '''', Url = videoUrl, Duration = 0,
         Thumbnail = '''', Meta = NewStreamMeta now \<rparr>
       TWITCH_API_KEY"

definition NewSoundCloudStream :: "time \<Rightarrow> string \<Rightarrow> string \<Rightarrow> Stream" where
  "NewSoundCloudStream now SC_API_KEY videoUrl =
     SoundCloudStream
       \<lparr> Kind = STREAM_TYPE_SOUNDCLOUD, Name = '''', Url = videoUrl, Duration = 0,
         Thumbnail = '''', Meta = NewStreamMeta now \<rparr>
       SC_API_KEY"

subsection \<open>SetInfo\<close>

text \<open>
  \<open>json.Unmarshal(data, s)\<close> belongs to the Go library: it is a parameter, a function
  from the bytes and the stream it is given to the stream it leaves and the error it
  returns (\<open>None\<close> is nil).
\<close>

type_synonym unmarshal = "string \<Rightarrow> StreamSchema \<Rightarrow> StreamSchema \<times> failure option"

definition SetInfo :: "unmarshal \<Rightarrow> time \<Rightarrow> StreamSchema \<Rightarrow> string \<Rightarrow> StreamSchema \<times> failure option" where
  "SetInfo Unmarshal now s data =
     (let s1 = s\<lparr>Meta := SetLastUpdated (Meta s) now\<rparr>
      in Unmarshal data s1)"

text \<open>
  One outcome of \<open>json.Unmarshal\<close> on a \<open>StreamSchema\<close>, for a document of the shape
  \<open>{"metadata":{"lastUpdated":T},"duration":"x"}\<close> where \<open>T\<close> is the instant \<open>t\<close>
  written as an RFC 3339 string. The document is well-formed JSON, so decoding starts.
  \<open>Meta\<close> is an interface that holds a pointer to a \<open>StreamMetaSchema\<close>, so the
  object under \<open>metadata\<close> is decoded into that struct and \<open>T\<close> is stored in its
  \<open>LastUpdated\<close> (tag \<open>lastUpdated\<close>). The value under \<open>duration\<close> is a string and the
  field a \<open>float64\<close>: the library skips the field, goes on, and returns the type error
  at the end.
\<close>

definition Unmarshal_lastUpdated_bad_duration :: "time \<Rightarrow> unmarshal" where
  "Unmarshal_lastUpdated_bad_duration t data s =
     (s\<lparr>Meta := (Meta s)\<lparr>LastUpdated := t\<rparr>\<rparr>,
      Some (Errorf ''json: cannot unmarshal %s into Go struct field %s of type %s''
              [''string'', ''StreamSchema.duration'', ''float64'']))"

subsection \<open>FetchMetadata\<close>

text \<open>
  A \<open>StreamMetadataCallback\<close> acts on whatever state \<open>'w\<close> its body touches; its data
  argument is a byte slice (\<open>None\<close> is nil, \<open>Some []\<close> is \<open>[]byte{}\<close>) and its error
  argument is nil (\<open>None\<close>) or an error. A call of \<open>FetchMetadata\<close> returns the state
  after the callbacks it ran itself, and the goroutines it started with \<open>go\<close>, each
  given by the arguments its closure received. All network access of the package is
  inside those goroutines.
\<close>

type_synonym 'w StreamMetadataCallback = "Stream \<Rightarrow> string option \<Rightarrow> failure option \<Rightarrow> 'w \<Rightarrow> 'w"

datatype goroutine =
  YouTubeFetch string string
| TwitchFetch string string
| SoundCloudFetch string string

definition StreamSchema_FetchMetadata ::
  "StreamSchema \<Rightarrow> 'w StreamMetadataCallback \<Rightarrow> 'w \<Rightarrow> 'w \<times> goroutine list" where
  "StreamSchema_FetchMetadata s callback w =
     (callback (BareStreamSchema s) None
        (Some (Errorf ''Stream schema of kind %q has no FetchMetadata method implemented.'' [Kind s]))
        w,
      [])"

definition YouTubeStream_FetchMetadata ::
  "string \<Rightarrow> StreamSchema \<Rightarrow> 'w StreamMetadataCallback \<Rightarrow> 'w \<Rightarrow> panic + ('w \<times> goroutine list)" where
  "YouTubeStream_FetchMetadata apiKey s callback w =
     (case ytVideoIdFromUrl (Url s) of
        Inl (Panicked p) \<Rightarrow> Inl p
      | Inl (Errorf f args) \<Rightarrow>
          Inr (callback (YouTubeStream apiKey s) (Some []) (Some (Errorf f args)) w, [])
      | Inr videoId \<Rightarrow> Inr (w, [YouTubeFetch videoId apiKey]))"

definition TwitchStream_FetchMetadata ::
  "StreamSchema \<Rightarrow> string \<Rightarrow> 'w StreamMetadataCallback \<Rightarrow> 'w \<Rightarrow> panic + ('w \<times> goroutine list)" where
  "TwitchStream_FetchMetadata s apiKey callback w =
     (case twitchVideoIdFromUrl (Url s) of
        Inl (Panicked p) \<Rightarrow> Inl p
      | Inl (Errorf f args) \<Rightarrow>
          Inr (callback (TwitchStream s apiKey) (Some []) (Some (Errorf f args)) w, [])
      | Inr videoId \<Rightarrow> Inr (w, [TwitchFetch videoId apiKey]))"

definition SoundCloudStream_FetchMetadata ::
  "StreamSchema \<Rightarrow> string \<Rightarrow> 'w StreamMetadataCallback \<Rightarrow> 'w \<Rightarrow> 'w \<times> goroutine list" where
  "SoundCloudStream_FetchMetadata s apiKey callback w = (w, [SoundCloudFetch (Url s) apiKey])"

subsection \<open>The SoundCloud payload\<close>

text \<open>
  Go's \<open>int\<close> is a 64-bit two's complement integer and its \<open>/\<close> truncates towards
  zero. In \<open>scResponseItem.Duration / 1000.0\<close> the left operand has type \<open>int\<close>, so the
  untyped constant \<open>1000.0\<close> becomes the \<open>int\<close> 1000 and the division is the integer
  one (the divisor is never zero here); \<open>float64(...)\<close> converts its result
  afterwards. A \<open>float64\<close> has 53 bits of precision: the conversion of an integer is
  exact below \<open>2 ^ 53\<close> in absolute value, and above that it rounds to the nearest
  value with 53 significant bits, a tie going to the even one.
\<close>

definition int_quo :: "64 word \<Rightarrow> 64 word \<Rightarrow> 64 word" where
  "int_quo a b = word_of_int (sint a sdiv sint b)"

definition round_to_float64 :: "int \<Rightarrow> real" where
  "round_to_float64 k =
     (let a = \<bar>k\<bar>; e = bitlen a - 53 in
      if e \<le> 0 then real_of_int k
      else
        let p = 2 ^ nat e; q = a div p; r = a mod p;
            q' = (if 2 * r > p \<or> (2 * r = p \<and> odd q) then q + 1 else q)
        in real_of_int (sgn k * (q' * p)))"

definition float64_of_int :: "64 word \<Rightarrow> real" where
  "float64_of_int x = round_to_float64 (sint x)"

record SoundCloudResponseItem =
  sc_Title :: string
  sc_Duration :: "64 word"
  sc_User_Thumb :: string

record SoundCloudVideoItem =
  item_name :: string
  item_duration :: real
  item_thumb :: string

definition scVideoItem :: "SoundCloudResponseItem \<Rightarrow> SoundCloudVideoItem" where
  "scVideoItem scResponseItem =
     \<lparr> item_name = sc_Title scResponseItem,
       item_duration = float64_of_int (int_quo (sc_Duration scResponseItem) 1000),
       item_thumb = sc_User_Thumb scResponseItem \<rparr>"

section \<open>The socket server: pkg/socket/server\<close>

text \<open>
  A \<open>Connection\<close> is what \<open>connHandler.NewConnection\<close> returns for an upgraded
  transport. A \<open>ServerEventCallback\<close> acts on the state \<open>'w\<close> that its body touches.
\<close>

type_synonym transport = nat

record Connection =
  conn_id :: string
  conn_transport :: transport

type_synonym 'w ServerEventCallback = "Connection \<Rightarrow> 'w \<Rightarrow> 'w"

record 'w Server =
  callbacks :: "string \<rightharpoonup> 'w ServerEventCallback list"

definition NewServer :: "'w Server" where
  "NewServer = \<lparr> callbacks = Map.empty \<rparr>"

definition On :: "'w Server \<Rightarrow> string \<Rightarrow> 'w ServerEventCallback \<Rightarrow> 'w Server" where
  "On s eventName callback =
     (let m = (case callbacks s eventName of
                 None \<Rightarrow> (callbacks s)(eventName \<mapsto> [])
               | Some _ \<Rightarrow> callbacks s)
      in s\<lparr>callbacks :=
            m(eventName \<mapsto> (case m eventName of None \<Rightarrow> [] | Some c \<Rightarrow> c) @ [callback])\<rparr>)"

definition Emit :: "'w Server \<Rightarrow> string \<Rightarrow> Connection \<Rightarrow> 'w \<Rightarrow> 'w" where
  "Emit s eventName conn w =
     (case callbacks s eventName of
        None \<Rightarrow> w
      | Some c \<Rightarrow> fold (\<lambda>callback. callback conn) c w)"

subsection \<open>Admission\<close>

definition DEFAULT_NAMESPACE :: string where "DEFAULT_NAMESPACE = ''lobby''"
definition MAX_READ_BUF_SIZE :: nat where "MAX_READ_BUF_SIZE = 1024"
definition MAX_WRITE_BUF_SIZE :: nat where "MAX_WRITE_BUF_SIZE = 1024"

record request =
  Referer :: string
  RequestURL :: string

datatype log_line =
  LogHandling string
| LogDefaulting string
| LogCreating string
| LogUpgradeFailed string failure

record Namespace =
  ns_name :: string

text \<open>
  Everything a request can change: the lines written with \<open>log.Printf\<close>, the header of
  the response writer, the namespaces registered with \<open>nsHandler\<close>, the connections
  that \<open>connHandler.NewConnection\<close> constructed, the joins, the connections handed
  to \<open>connHandler.Handle\<close>, and the state that the listeners of the event bus act on.
\<close>

record 'w world =
  log_lines :: "log_line list"
  header :: "string \<rightharpoonup> string"
  registry :: "string \<rightharpoonup> Namespace"
  constructed :: "Connection list"
  joined :: "(Connection \<times> string) list"
  handled :: "Connection list"
  listener_state :: 'w

text \<open>
  The two library calls whose outcome the request decides:
  \<open>util.NamespaceFromRequest\<close> and \<open>websocket.Upgrade\<close> (given the request, the
  response header and the two buffer sizes).
\<close>

record collaborators =
  NamespaceFromRequest :: "request \<Rightarrow> failure + string"
  Upgrade :: "request \<Rightarrow> (string \<rightharpoonup> string) \<Rightarrow> nat \<Rightarrow> nat \<Rightarrow> failure + transport"

definition Printf :: "log_line \<Rightarrow> 'w world \<Rightarrow> 'w world" where
  "Printf l st = st\<lparr>log_lines := log_lines st @ [l]\<rparr>"

definition Header_Set :: "string \<Rightarrow> string \<Rightarrow> 'w world \<Rightarrow> 'w world" where
  "Header_Set k v st = st\<lparr>header := (header st)(k \<mapsto> v)\<rparr>"

definition NamespaceByName :: "'w world \<Rightarrow> string \<Rightarrow> Namespace option" where
  \<comment> \<open>Modelled from the spec: package connection is missing; \<open>NamespaceByName(name) -> (namespace, found)\<close>.\<close>
  "NamespaceByName st name = registry st name"

definition NewNamespace :: "'w world \<Rightarrow> string \<Rightarrow> Namespace \<times> 'w world" where
  \<comment> \<open>Modelled from the spec: package connection is missing; \<open>NewNamespace(name)\<close> registers and returns a new empty namespace.\<close>
  "NewNamespace st name =
     (\<lparr> ns_name = name \<rparr>, st\<lparr>registry := (registry st)(name \<mapsto> \<lparr> ns_name = name \<rparr>)\<rparr>)"

definition NewConnection :: "'w world \<Rightarrow> string \<Rightarrow> transport \<Rightarrow> Connection \<times> 'w world" where
  \<comment> \<open>Modelled from the spec: package connection is missing; a Connection value wrapping the upgraded transport is constructed.\<close>
  "NewConnection st ident conn =
     (\<lparr> conn_id = ident, conn_transport = conn \<rparr>,
      st\<lparr>constructed := constructed st @ [\<lparr> conn_id = ident, conn_transport = conn \<rparr>]\<rparr>)"

definition Join :: "'w world \<Rightarrow> Connection \<Rightarrow> string \<Rightarrow> 'w world" where
  \<comment> \<open>Modelled from the spec: package connection is missing; the connection joins the namespace of that name.\<close>
  "Join st socketConn name = st\<lparr>joined := joined st @ [(socketConn, name)]\<rparr>"

definition Handle :: "'w world \<Rightarrow> Connection \<Rightarrow> 'w world" where
  \<comment> \<open>Modelled from the spec: package connection is missing; the connection is handed to the owner of the receive loop.\<close>
  "Handle st socketConn = st\<lparr>handled := handled st @ [socketConn]\<rparr>"

definition getClientOrigin :: "request \<Rightarrow> string" where
  "getClientOrigin r =
     (let clientPath = Referer r;
          clientProto = Split clientPath ''://''
      in if length clientProto > 1 then
           (let clientHost = Split (clientProto ! 1) ''/''
            in clientProto ! 0 @ ''://'' @ clientHost ! 0)
         else ''*'')"

text \<open>
  \<open>before_upgrade\<close> is \<open>ServeHTTP\<close> up to the call of \<open>websocket.Upgrade\<close>: the origin, the
  two response headers, the namespace name and the lookup or creation of the
  namespace. It returns the namespace and the state reached.
\<close>

definition before_upgrade :: "collaborators \<Rightarrow> request \<Rightarrow> 'w world \<Rightarrow> Namespace \<times> 'w world" where
  "before_upgrade ext r st =
     (let origin = getClientOrigin r;
          st1 = Printf (LogHandling origin) st;
          st2 = Header_Set ''Access-Control-Allow-Origin'' origin st1;
          st3 = Header_Set ''Access-Control-Allow-Credentials'' ''true'' st2;
          (nsName, st4) =
            (case NamespaceFromRequest ext r of
               Inl err \<Rightarrow> (DEFAULT_NAMESPACE, Printf (LogDefaulting DEFAULT_NAMESPACE) st3)
             | Inr n \<Rightarrow> (n, st3))
      in case NamespaceByName st4 nsName of
           Some namespace \<Rightarrow> (namespace, st4)
         | None \<Rightarrow> NewNamespace (Printf (LogCreating nsName) st4) nsName)"

definition ServeHTTP :: "'w Server \<Rightarrow> collaborators \<Rightarrow> request \<Rightarrow> 'w world \<Rightarrow> 'w world" where
  "ServeHTTP s ext r st =
     (let (namespace, st5) = before_upgrade ext r st
      in case Upgrade ext r (header st5) MAX_READ_BUF_SIZE MAX_WRITE_BUF_SIZE of
           Inl err \<Rightarrow> Printf (LogUpgradeFailed (RequestURL r) err) st5
         | Inr conn \<Rightarrow>
             (let (socketConn, st6) = NewConnection st5 '''' conn;
                  st7 = Join st6 socketConn (ns_name namespace);
                  st8 = st7\<lparr>listener_state := Emit s ''connection'' socketConn (listener_state st7)\<rparr>
              in Handle st8 socketConn))"

section \<open>Notions of the specification\<close>

text \<open>
  \<open>occurs_at substr s n\<close>: the text \<open>substr\<close> stands in \<open>s\<close> at position \<open>n\<close>.
  \<open>final_segment u\<close>: the text of \<open>u\<close> after its last \<open>/\<close> (all of \<open>u\<close> when it has
  none). \<open>before_amp t\<close>: the text of \<open>t\<close> before its first \<open>&\<close> (all of \<open>t\<close> when it
  has none).
\<close>

definition occurs_at :: "string \<Rightarrow> string \<Rightarrow> nat \<Rightarrow> bool" where
  "occurs_at substr s n = (n + length substr \<le> length s \<and> take (length substr) (drop n s) = substr)"

definition final_segment :: "string \<Rightarrow> string" where
  "final_segment u = rev (takeWhile (\<lambda>c. c \<noteq> CHR ''/'') (rev u))"

definition before_amp :: "string \<Rightarrow> string" where
  "before_amp t = takeWhile (\<lambda>c. c \<noteq> CHR ''&'') t"

text \<open>
  The YouTube rule read from the specification alone: no \<open>/\<close> is an invalid URL;
  otherwise, when the final segment holds the marker, the id is all the text after
  the marker, cut before its first \<open>&\<close>; otherwise the id is the final segment.
\<close>

definition ytVideoId_as_claimed :: "string \<Rightarrow> failure + string" where
  "ytVideoId_as_claimed u =
     (if CHR ''/'' \<notin> set u then Inl (Errorf ''invalid url'' [])
      else case Index (final_segment u) ''watch?v='' of
             None \<Rightarrow> Inr (final_segment u)
           | Some n \<Rightarrow> Inr (before_amp (drop (n + length ''watch?v='') (final_segment u))))"

section \<open>Facts about Index and Split\<close>

lemma HasPrefix_take: "HasPrefix s p = (length p \<le> length s \<and> take (length p) s = p)"
  by (induction s p rule: HasPrefix.induct) auto

lemma occurs_at_0: "occurs_at substr s 0 = HasPrefix s substr"
  by (simp add: occurs_at_def HasPrefix_take)

lemma occurs_at_Suc: "occurs_at substr (c # cs) (Suc k) = occurs_at substr cs k"
  by (simp add: occurs_at_def)

lemma occurs_at_Nil: "occurs_at substr [] k = (substr = [] \<and> k = 0)"
  by (auto simp: occurs_at_def)

lemma Index_None_iff: "Index s substr = None \<longleftrightarrow> (\<forall>k. \<not> occurs_at substr s k)"
proof (induction s)
  case Nil
  show ?case by (auto simp: occurs_at_Nil)
next
  case (Cons c cs)
  have "(\<forall>k. \<not> occurs_at substr (c # cs) k)
        \<longleftrightarrow> \<not> occurs_at substr (c # cs) 0 \<and> (\<forall>k. \<not> occurs_at substr cs k)"
    by (metis occurs_at_Suc not0_implies_Suc)
  with Cons show ?case by (simp add: occurs_at_0)
qed

lemma Index_Some_iff:
  "Index s substr = Some m \<longleftrightarrow> occurs_at substr s m \<and> (\<forall>k<m. \<not> occurs_at substr s k)"
proof (induction s arbitrary: m)
  case Nil
  show ?case by (auto simp: occurs_at_Nil)
next
  case (Cons c cs)
  show ?case
  proof (cases "HasPrefix (c # cs) substr")
    case True
    then have "occurs_at substr (c # cs) 0" by (simp add: occurs_at_0)
    with True show ?thesis by (cases m) auto
  next
    case False
    then have no0: "\<not> occurs_at substr (c # cs) 0" by (simp add: occurs_at_0)
    show ?thesis
    proof (cases m)
      case 0
      with False no0 show ?thesis by auto
    next
      case (Suc j)
      have "(\<forall>k<Suc j. \<not> occurs_at substr (c # cs) k) \<longleftrightarrow> (\<forall>k<j. \<not> occurs_at substr cs k)"
        using no0 by (metis occurs_at_Suc less_Suc_eq_0_disj Suc_less_eq)
      with False Suc Cons [of j] show ?thesis
        by (auto simp: occurs_at_Suc)
    qed
  qed
qed

lemma Split_not_Nil: "sep \<noteq> [] \<Longrightarrow> Split s sep \<noteq> []"
  by (subst Split.simps) (simp split: option.split)

lemma Split_none: "sep \<noteq> [] \<Longrightarrow> Index s sep = None \<Longrightarrow> Split s sep = [s]"
  by (subst Split.simps) simp

lemma Split_some:
  "sep \<noteq> [] \<Longrightarrow> Index s sep = Some m \<Longrightarrow>
   Split s sep = take m s # Split (drop (m + length sep) s) sep"
  by (subst Split.simps) simp

lemma length_Split_ge2: "sep \<noteq> [] \<Longrightarrow> (length (Split s sep) < 2) = (Index s sep = None)"
proof (cases "Index s sep")
  case None
  assume "sep \<noteq> []"
  with None show ?thesis by (simp add: Split_none)
next
  case (Some m)
  assume sep: "sep \<noteq> []"
  with Some Split_not_Nil [OF sep, of "drop (m + length sep) s"] show ?thesis
    by (cases "Split (drop (m + length sep) s) sep") (simp_all add: Split_some)
qed

lemma length_Split_eq2:
  "sep \<noteq> [] \<Longrightarrow>
   (length (Split s sep) = 2) =
   (\<exists>m. Index s sep = Some m \<and> Index (drop (m + length sep) s) sep = None)"
proof (cases "Index s sep")
  case None
  assume "sep \<noteq> []"
  with None show ?thesis by (simp add: Split_none)
next
  case (Some m)
  assume sep: "sep \<noteq> []"
  have "(length (Split (drop (m + length sep) s) sep) = 1)
        = (Index (drop (m + length sep) s) sep = None)"
    using length_Split_ge2 [OF sep, of "drop (m + length sep) s"]
      Split_not_Nil [OF sep, of "drop (m + length sep) s"]
    by (cases "Split (drop (m + length sep) s) sep") auto
  with Some sep show ?thesis by (simp add: Split_some)
qed


lemma occurs_at_single: "occurs_at [c] s k = (k < length s \<and> s ! k = c)"
  by (auto simp: occurs_at_def take_Suc_conv_app_nth hd_drop_conv_nth take_Suc)

lemma Index_single_None: "(Index s [c] = None) = (c \<notin> set s)"
  by (auto simp: Index_None_iff occurs_at_single in_set_conv_nth)

lemma Index_single_Some:
  assumes "Index s [c] = Some m"
  shows "take m s = takeWhile (\<lambda>x. x \<noteq> c) s" and "m < length s" and "s ! m = c"
proof -
  from assms have at: "m < length s" "s ! m = c" and first: "\<forall>k<m. s ! k \<noteq> c"
    by (auto simp: Index_Some_iff occurs_at_single)
  then show "m < length s" "s ! m = c" by simp_all
  have "takeWhile (\<lambda>x. x \<noteq> c) s = take m s"
    by (rule takeWhile_eq_take_P_nth) (use at first in auto)
  then show "take m s = takeWhile (\<lambda>x. x \<noteq> c) s" by simp
qed

lemma takeWhile_notin: "c \<notin> set t \<Longrightarrow> takeWhile (\<lambda>x. x \<noteq> c) t = t"
  by (induction t) auto

lemma Split_two:
  assumes "sep \<noteq> []" "Index s sep = Some n" "Index (drop (n + length sep) s) sep = None"
  shows "Split s sep = [take n s, drop (n + length sep) s]"
  using assms by (simp add: Split_some Split_none)

lemma hd_Split_single: "hd (Split t [c]) = takeWhile (\<lambda>x. x \<noteq> c) t"
proof (cases "Index t [c]")
  case None
  then have "c \<notin> set t" by (simp add: Index_single_None)
  with None show ?thesis by (simp add: Split_none takeWhile_notin)
next
  case (Some m)
  then show ?thesis by (simp add: Split_some Index_single_Some(1))
qed

lemma takeWhile_append_stop: "\<not> P c \<Longrightarrow> takeWhile P (xs @ c # ys) = takeWhile P xs"
  by (induction xs) auto

lemma final_segment_after:
  "final_segment (a @ CHR ''/'' # rest) = final_segment rest"
  by (simp add: final_segment_def takeWhile_append_stop)

lemma last_Split_slash: "last (Split s ''/'') = final_segment s"
proof (induction s "''/''" rule: Split.induct)
  case (1 s)
  show ?case
  proof (cases "Index s ''/''")
    case None
    then have "CHR ''/'' \<notin> set s" by (simp add: Index_single_None)
    then have "final_segment s = s"
      by (simp add: final_segment_def takeWhile_notin)
    with None show ?thesis by (simp add: Split_none)
  next
    case (Some m)
    from Index_single_Some [OF Some]
    have "s = take m s @ CHR ''/'' # drop (m + 1) s"
      by (metis Suc_eq_plus1 id_take_nth_drop)
    then have fin: "final_segment s = final_segment (drop (m + 1) s)"
      by (metis final_segment_after)
    have "last (Split s ''/'') = last (Split (drop (m + 1) s) ''/'')"
      using Some Split_not_Nil [of "''/''" "drop (m + 1) s"] by (simp add: Split_some)
    with 1 [OF _ Some] fin show ?thesis by simp
  qed
qed


lemma occurs_at_drop:
  "substr \<noteq> [] \<Longrightarrow> occurs_at substr (drop n s) j \<Longrightarrow> occurs_at substr s (n + j)"
  by (cases "n \<le> length s") (auto simp: occurs_at_def add.commute)

lemma twitch_ok:
  assumes "Index u ''/videos/'' = Some n"
    and "Index (drop (n + length ''/videos/'') u) ''/videos/'' = None"
  shows "twitchVideoIdFromUrl u = Inr (drop (n + length ''/videos/'') u)"
proof -
  have "Split u ''/videos/'' = [take n u, drop (n + length ''/videos/'') u]"
    by (rule Split_two) (use assms in simp_all)
  then show ?thesis by (simp add: twitchVideoIdFromUrl_def)
qed

lemma twitch_fail:
  assumes "\<not> (\<exists>n. Index u ''/videos/'' = Some n
            \<and> Index (drop (n + length ''/videos/'') u) ''/videos/'' = None)"
  shows "twitchVideoIdFromUrl u = Inl (Errorf ''invalid url'' [])"
proof -
  have "(length (Split u ''/videos/'') = 2) =
      (\<exists>n. Index u ''/videos/'' = Some n
            \<and> Index (drop (n + length ''/videos/'') u) ''/videos/'' = None)"
    by (rule length_Split_eq2) simp
  with assms have "length (Split u ''/videos/'') \<noteq> 2" by blast
  then show ?thesis by (simp add: twitchVideoIdFromUrl_def)
qed

text \<open>
  C4, amended. \<open>twitchVideoIdFromUrl\<close> succeeds exactly when \<open>/videos/\<close> occurs in the
  URL and the text after its first occurrence holds no further \<open>/videos/\<close>; the id is
  that text. It fails with the invalid-URL error when \<open>/videos/\<close> is absent, and when
  the text after the first occurrence holds \<open>/videos/\<close> again. When \<open>/videos/\<close> stands
  at one position only, the extraction succeeds. (An occurrence that overlaps the first
  one lies partly inside it, not in the text after it, and does not make the
  extraction fail.)
\<close>

theorem twitchVideoIdFromUrl_first_and_only:
  "(occurs_at ''/videos/'' u n \<and> (\<forall>k<n. \<not> occurs_at ''/videos/'' u k)
      \<and> (\<forall>k. \<not> occurs_at ''/videos/'' (drop (n + length ''/videos/'') u) k)
      \<longrightarrow> twitchVideoIdFromUrl u = Inr (drop (n + length ''/videos/'') u))
   \<and> ((\<forall>k. \<not> occurs_at ''/videos/'' u k)
      \<longrightarrow> twitchVideoIdFromUrl u = Inl (Errorf ''invalid url'' []))
   \<and> (occurs_at ''/videos/'' u n \<and> (\<forall>k<n. \<not> occurs_at ''/videos/'' u k)
      \<and> occurs_at ''/videos/'' (drop (n + length ''/videos/'') u) j
      \<longrightarrow> twitchVideoIdFromUrl u = Inl (Errorf ''invalid url'' []))
   \<and> (twitchVideoIdFromUrl u = Inr ident
      \<longrightarrow> (\<exists>m. occurs_at ''/videos/'' u m \<and> (\<forall>k<m. \<not> occurs_at ''/videos/'' u k)
            \<and> (\<forall>k. \<not> occurs_at ''/videos/'' (drop (m + length ''/videos/'') u) k)
            \<and> ident = drop (m + length ''/videos/'') u))
   \<and> (occurs_at ''/videos/'' u n \<and> (\<forall>k. occurs_at ''/videos/'' u k \<longrightarrow> k = n)
      \<longrightarrow> twitchVideoIdFromUrl u = Inr (drop (n + length ''/videos/'') u))"
proof (intro conjI impI)
  assume "occurs_at ''/videos/'' u n \<and> (\<forall>k<n. \<not> occurs_at ''/videos/'' u k)
      \<and> (\<forall>k. \<not> occurs_at ''/videos/'' (drop (n + length ''/videos/'') u) k)"
  then have "Index u ''/videos/'' = Some n"
    "Index (drop (n + length ''/videos/'') u) ''/videos/'' = None"
    unfolding Index_Some_iff Index_None_iff by blast+
  then show "twitchVideoIdFromUrl u = Inr (drop (n + length ''/videos/'') u)"
    by (rule twitch_ok)
next
  assume "\<forall>k. \<not> occurs_at ''/videos/'' u k"
  then have "Index u ''/videos/'' = None" unfolding Index_None_iff .
  then show "twitchVideoIdFromUrl u = Inl (Errorf ''invalid url'' [])"
    by (intro twitch_fail) simp
next
  assume "occurs_at ''/videos/'' u n \<and> (\<forall>k<n. \<not> occurs_at ''/videos/'' u k)
      \<and> occurs_at ''/videos/'' (drop (n + length ''/videos/'') u) j"
  then have "Index u ''/videos/'' = Some n"
    "Index (drop (n + length ''/videos/'') u) ''/videos/'' \<noteq> None"
    unfolding Index_Some_iff Index_None_iff by blast+
  then show "twitchVideoIdFromUrl u = Inl (Errorf ''invalid url'' [])"
    by (intro twitch_fail) (simp del: length_Cons list.size)
next
  assume ok: "twitchVideoIdFromUrl u = Inr ident"
  have "\<exists>m. Index u ''/videos/'' = Some m
          \<and> Index (drop (m + length ''/videos/'') u) ''/videos/'' = None"
  proof (rule ccontr)
    assume "\<not> ?thesis"
    from twitch_fail [OF this] ok show False by simp
  qed
  then obtain m where m: "Index u ''/videos/'' = Some m"
    "Index (drop (m + length ''/videos/'') u) ''/videos/'' = None" by blast
  from ok twitch_ok [OF m] have "ident = drop (m + length ''/videos/'') u" by simp
  with m show "\<exists>m. occurs_at ''/videos/'' u m \<and> (\<forall>k<m. \<not> occurs_at ''/videos/'' u k)
            \<and> (\<forall>k. \<not> occurs_at ''/videos/'' (drop (m + length ''/videos/'') u) k)
            \<and> ident = drop (m + length ''/videos/'') u"
    unfolding Index_Some_iff Index_None_iff by blast
next
  assume a: "occurs_at ''/videos/'' u n \<and> (\<forall>k. occurs_at ''/videos/'' u k \<longrightarrow> k = n)"
  then have first: "Index u ''/videos/'' = Some n"
    unfolding Index_Some_iff by blast
  have "\<not> occurs_at ''/videos/'' (drop (n + length ''/videos/'') u) k" for k
  proof
    assume "occurs_at ''/videos/'' (drop (n + length ''/videos/'') u) k"
    then have "occurs_at ''/videos/'' u (n + length ''/videos/'' + k)"
      by (intro occurs_at_drop) simp_all
    with a have "n + length ''/videos/'' + k = n" by blast
    then show False by simp
  qed
  then have "Index (drop (n + length ''/videos/'') u) ''/videos/'' = None"
    unfolding Index_None_iff by blast
  with first show "twitchVideoIdFromUrl u = Inr (drop (n + length ''/videos/'') u)"
    by (rule twitch_ok)
qed

text \<open>
  C4 as stated fails: in \<open>/videos/videos/\<close> the text \<open>/videos/\<close> stands at position 0
  and again at position 7 (the two occurrences share a \<open>/\<close>), so it occurs more than
  once, and yet the extraction succeeds, with the id \<open>videos/\<close>.
\<close>

theorem twitchVideoIdFromUrl_overlapping_markers:
  "occurs_at ''/videos/'' ''/videos/videos/'' 0
   \<and> occurs_at ''/videos/'' ''/videos/videos/'' 7
   \<and> twitchVideoIdFromUrl ''/videos/videos/'' = Inr ''videos/''"
  by (simp add: occurs_at_def twitchVideoIdFromUrl_def Split.simps)

theorem twitchVideoIdFromUrl_first_and_only_witness:
  "twitchVideoIdFromUrl ''https://www.twitch.tv/videos/55555'' = Inr ''55555''
   \<and> twitchVideoIdFromUrl ''https://www.twitch.tv/55555'' = Inl (Errorf ''invalid url'' [])
   \<and> twitchVideoIdFromUrl ''/videos/1/videos/2'' = Inl (Errorf ''invalid url'' [])
   \<and> occurs_at ''/videos/'' ''https://www.twitch.tv/videos/55555'' 21
   \<and> occurs_at ''/videos/'' ''/videos/1/videos/2'' 0
   \<and> occurs_at ''/videos/'' (drop (0 + length ''/videos/'') ''/videos/1/videos/2'') 1"
proof -
  have "Index ''https://www.twitch.tv/videos/55555'' ''/videos/'' = Some 21" by simp
  then have a: "occurs_at ''/videos/'' ''https://www.twitch.tv/videos/55555'' 21
      \<and> (\<forall>k<21. \<not> occurs_at ''/videos/'' ''https://www.twitch.tv/videos/55555'' k)"
    unfolding Index_Some_iff .
  have "Index ''55555'' ''/videos/'' = None" by simp
  then have "\<forall>k. \<not> occurs_at ''/videos/'' ''55555'' k"
    unfolding Index_None_iff .
  then have b: "\<forall>k. \<not> occurs_at ''/videos/''
      (drop (21 + length ''/videos/'') ''https://www.twitch.tv/videos/55555'') k"
    by simp
  have "Index ''https://www.twitch.tv/55555'' ''/videos/'' = None" by simp
  then have c: "\<forall>k. \<not> occurs_at ''/videos/'' ''https://www.twitch.tv/55555'' k"
    unfolding Index_None_iff .
  have d: "occurs_at ''/videos/'' ''/videos/1/videos/2'' 0
      \<and> (\<forall>k<0. \<not> occurs_at ''/videos/'' ''/videos/1/videos/2'' k)
      \<and> occurs_at ''/videos/'' (drop (0 + length ''/videos/'') ''/videos/1/videos/2'') 1"
    by (simp add: occurs_at_def)
  have one: "twitchVideoIdFromUrl ''https://www.twitch.tv/videos/55555''
      = Inr (drop (21 + length ''/videos/'') ''https://www.twitch.tv/videos/55555'')"
    using a b twitchVideoIdFromUrl_first_and_only
      [of "''https://www.twitch.tv/videos/55555''" 21 0 "''55555''"]
    by blast
  have two: "twitchVideoIdFromUrl ''https://www.twitch.tv/55555'' = Inl (Errorf ''invalid url'' [])"
    using c twitchVideoIdFromUrl_first_and_only [of "''https://www.twitch.tv/55555''" 0 0 "''''"]
    by blast
  have three: "twitchVideoIdFromUrl ''/videos/1/videos/2'' = Inl (Errorf ''invalid url'' [])"
    using d twitchVideoIdFromUrl_first_and_only [of "''/videos/1/videos/2''" 0 1 "''''"]
    by blast
  from one have "twitchVideoIdFromUrl ''https://www.twitch.tv/videos/55555'' = Inr ''55555''"
    by simp
  with two three a d show ?thesis by blast
qed

lemma amp_result:
  "(if length (Split x ''&'') > 1 then Inr (Split x ''&'' ! 0) else Inr x)
     = (Inr (before_amp x) :: failure + string)"
proof (cases "Index x ''&''")
  case None
  then have "CHR ''&'' \<notin> set x" by (simp add: Index_single_None)
  with None show ?thesis by (simp add: Split_none before_amp_def takeWhile_notin)
next
  case (Some m)
  have ne: "Split (drop (m + length ''&'') x) ''&'' \<noteq> []"
    by (rule Split_not_Nil) simp
  have "Split x ''&'' = take m x # Split (drop (m + length ''&'') x) ''&''"
    by (rule Split_some) (use Some in simp_all)
  with ne Index_single_Some(1) [OF Some] show ?thesis
    by (cases "Split (drop (m + length ''&'') x) ''&''") (simp_all add: before_amp_def)
qed

lemma yt_unfold:
  "ytVideoIdFromUrl u =
     (if CHR ''/'' \<notin> set u then Inl (Errorf ''invalid url'' [])
      else case Index (final_segment u) ''watch?v='' of
             None \<Rightarrow> Inr (final_segment u)
           | Some n \<Rightarrow>
               Inr (before_amp
                 (hd (Split (drop (n + length ''watch?v='') (final_segment u)) ''watch?v=''))))"
proof (cases "CHR ''/'' \<in> set u")
  case False
  then have "length (Split u ''/'') < 2"
    using length_Split_ge2 [of "''/''" u] by (simp add: Index_single_None)
  with False show ?thesis by (simp add: ytVideoIdFromUrl_def)
next
  case True
  then have len: "\<not> length (Split u ''/'') < 2"
    using length_Split_ge2 [of "''/''" u] by (simp add: Index_single_None)
  have "Split u ''/'' \<noteq> []" by (rule Split_not_Nil) simp
  then have lastSeg: "Split u ''/'' ! (length (Split u ''/'') - 1) = final_segment u"
    using last_Split_slash [of u] by (simp add: last_conv_nth)
  show ?thesis
  proof (cases "Index (final_segment u) ''watch?v=''")
    case None
    with True len lastSeg show ?thesis
      by (simp add: ytVideoIdFromUrl_def Contains_def)
  next
    case (Some n)
    let ?rest = "drop (n + length ''watch?v='') (final_segment u)"
    have sp: "Split (final_segment u) ''watch?v='' = take n (final_segment u) # Split ?rest ''watch?v=''"
      by (rule Split_some) (use Some in simp_all)
    have ne: "Split ?rest ''watch?v='' \<noteq> []" by (rule Split_not_Nil) simp
    then obtain x xs where xs: "Split ?rest ''watch?v='' = x # xs"
      by (cases "Split ?rest ''watch?v=''") auto
    have "ytVideoIdFromUrl u =
        (if length (Split x ''&'') > 1 then Inr (Split x ''&'' ! 0) else Inr x)"
      using True len lastSeg Some sp xs
      by (simp add: ytVideoIdFromUrl_def Contains_def Let_def del: length_Cons list.size)
         (simp)
    also have "\<dots> = Inr (before_amp x)" by (rule amp_result)
    finally show ?thesis using True Some xs by simp
  qed
qed


text \<open>
  C2, amended. \<open>ytVideoIdFromUrl\<close> fails with the invalid-URL error exactly when the
  URL holds no \<open>/\<close>. Otherwise it takes the final \<open>/\<close>-delimited segment. When the
  marker \<open>watch?v=\<close> does not occur in that segment, the segment is the id. When it
  occurs, the id is the text between the first occurrence of the marker and the next
  occurrence of the marker (the end of the segment when there is none), cut before its
  first \<open>&\<close> when it has one. A URL that ends in \<open>/watch?v=abc123&t=5\<close> yields
  \<open>abc123\<close>.
\<close>

theorem ytVideoIdFromUrl_segment_marker_amp:
  "(ytVideoIdFromUrl u = Inl (Errorf ''invalid url'' []) \<longleftrightarrow> CHR ''/'' \<notin> set u)
   \<and> (CHR ''/'' \<in> set u \<and> (\<forall>k. \<not> occurs_at ''watch?v='' (final_segment u) k)
        \<longrightarrow> ytVideoIdFromUrl u = Inr (final_segment u))
   \<and> (CHR ''/'' \<in> set u
        \<and> occurs_at ''watch?v='' (final_segment u) n
        \<and> (\<forall>k<n. \<not> occurs_at ''watch?v='' (final_segment u) k)
        \<and> (\<forall>k. \<not> occurs_at ''watch?v='' (drop (n + length ''watch?v='') (final_segment u)) k)
        \<longrightarrow> ytVideoIdFromUrl u
              = Inr (before_amp (drop (n + length ''watch?v='') (final_segment u))))
   \<and> (CHR ''/'' \<in> set u
        \<and> occurs_at ''watch?v='' (final_segment u) n
        \<and> (\<forall>k<n. \<not> occurs_at ''watch?v='' (final_segment u) k)
        \<and> occurs_at ''watch?v='' (drop (n + length ''watch?v='') (final_segment u)) j
        \<and> (\<forall>k<j. \<not> occurs_at ''watch?v='' (drop (n + length ''watch?v='') (final_segment u)) k)
        \<longrightarrow> ytVideoIdFromUrl u
              = Inr (before_amp (take j (drop (n + length ''watch?v='') (final_segment u)))))
   \<and> ytVideoIdFromUrl (p @ ''/watch?v=abc123&t=5'') = Inr ''abc123''"
proof (intro conjI impI)
  show "ytVideoIdFromUrl u = Inl (Errorf ''invalid url'' []) \<longleftrightarrow> CHR ''/'' \<notin> set u"
    by (simp add: yt_unfold split: option.split)
next
  assume "CHR ''/'' \<in> set u \<and> (\<forall>k. \<not> occurs_at ''watch?v='' (final_segment u) k)"
  then have "CHR ''/'' \<in> set u" "Index (final_segment u) ''watch?v='' = None"
    unfolding Index_None_iff by blast+
  then show "ytVideoIdFromUrl u = Inr (final_segment u)"
    by (simp add: yt_unfold)
next
  let ?rest = "drop (n + length ''watch?v='') (final_segment u)"
  assume "CHR ''/'' \<in> set u
        \<and> occurs_at ''watch?v='' (final_segment u) n
        \<and> (\<forall>k<n. \<not> occurs_at ''watch?v='' (final_segment u) k)
        \<and> (\<forall>k. \<not> occurs_at ''watch?v='' ?rest k)"
  then have slash: "CHR ''/'' \<in> set u"
    and first: "Index (final_segment u) ''watch?v='' = Some n"
    and none: "Index ?rest ''watch?v='' = None"
    unfolding Index_Some_iff Index_None_iff by blast+
  have "Split ?rest ''watch?v='' = [?rest]"
    by (rule Split_none) (use none in simp_all)
  with slash first show "ytVideoIdFromUrl u = Inr (before_amp ?rest)"
    by (simp add: yt_unfold del: length_Cons list.size)
next
  let ?rest = "drop (n + length ''watch?v='') (final_segment u)"
  assume "CHR ''/'' \<in> set u
        \<and> occurs_at ''watch?v='' (final_segment u) n
        \<and> (\<forall>k<n. \<not> occurs_at ''watch?v='' (final_segment u) k)
        \<and> occurs_at ''watch?v='' ?rest j
        \<and> (\<forall>k<j. \<not> occurs_at ''watch?v='' ?rest k)"
  then have slash: "CHR ''/'' \<in> set u"
    and first: "Index (final_segment u) ''watch?v='' = Some n"
    and nxt: "Index ?rest ''watch?v='' = Some j"
    unfolding Index_Some_iff by blast+
  have "Split ?rest ''watch?v=''
      = take j ?rest # Split (drop (j + length ''watch?v='') ?rest) ''watch?v=''"
    by (rule Split_some) (use nxt in simp_all)
  with slash first show "ytVideoIdFromUrl u = Inr (before_amp (take j ?rest))"
    by (simp add: yt_unfold del: length_Cons list.size)
next
  have seg: "final_segment (p @ ''/watch?v=abc123&t=5'') = ''watch?v=abc123&t=5''"
    by (simp add: final_segment_def)
  have idx: "Index ''watch?v=abc123&t=5'' ''watch?v='' = Some 0" by simp
  have sp: "Split ''abc123&t=5'' ''watch?v='' = [''abc123&t=5'']"
    by (simp add: Split.simps)
  show "ytVideoIdFromUrl (p @ ''/watch?v=abc123&t=5'') = Inr ''abc123''"
    by (simp add: yt_unfold seg sp before_amp_def)
qed

text \<open>
  C2 as stated fails where the marker occurs twice in the final segment: the code
  returns the text between the two markers, \<open>a\<close>, and not the text after the marker,
  \<open>awatch?v=b\<close> (which has no \<open>&\<close> to be cut at).
\<close>

theorem ytVideoIdFromUrl_two_markers:
  "ytVideoIdFromUrl ''https://www.youtube.com/watch?v=awatch?v=b'' = Inr ''a''
   \<and> ytVideoId_as_claimed ''https://www.youtube.com/watch?v=awatch?v=b'' = Inr ''awatch?v=b''"
  by (simp add: ytVideoIdFromUrl_def Contains_def ytVideoId_as_claimed_def final_segment_def
      before_amp_def Split.simps)

theorem ytVideoIdFromUrl_segment_marker_amp_witness:
  "ytVideoIdFromUrl ''https://www.youtube.com/watch?v=abc123&t=5'' = Inr ''abc123''
   \<and> ytVideoIdFromUrl ''https://youtu.be/abc123'' = Inr ''abc123''
   \<and> ytVideoIdFromUrl ''abc123'' = Inl (Errorf ''invalid url'' [])
   \<and> ytVideoIdFromUrl ''https://www.youtube.com/watch?v=a&b=1watch?v=c'' = Inr ''a''"
proof -
  have seg1: "final_segment ''https://www.youtube.com/watch?v=abc123&t=5'' = ''watch?v=abc123&t=5''"
    by (simp add: final_segment_def)
  have "Index ''watch?v=abc123&t=5'' ''watch?v='' = Some 0" by simp
  then have first1: "occurs_at ''watch?v='' ''watch?v=abc123&t=5'' 0
      \<and> (\<forall>k<0. \<not> occurs_at ''watch?v='' ''watch?v=abc123&t=5'' k)"
    unfolding Index_Some_iff .
  have "Index ''abc123&t=5'' ''watch?v='' = None" by simp
  then have "\<forall>k. \<not> occurs_at ''watch?v='' ''abc123&t=5'' k"
    unfolding Index_None_iff .
  then have none1: "\<forall>k. \<not> occurs_at ''watch?v=''
      (drop (0 + length ''watch?v='') ''watch?v=abc123&t=5'') k"
    by simp
  have slash1: "CHR ''/'' \<in> set ''https://www.youtube.com/watch?v=abc123&t=5''" by simp
  have "ytVideoIdFromUrl ''https://www.youtube.com/watch?v=abc123&t=5''
      = Inr (before_amp (drop (0 + length ''watch?v='') ''watch?v=abc123&t=5''))"
    using slash1 first1 none1 ytVideoIdFromUrl_segment_marker_amp
      [of "''https://www.youtube.com/watch?v=abc123&t=5''" 0 0 "[]"]
    unfolding seg1 by blast
  then have one: "ytVideoIdFromUrl ''https://www.youtube.com/watch?v=abc123&t=5'' = Inr ''abc123''"
    by (simp add: before_amp_def)
  have seg2: "final_segment ''https://youtu.be/abc123'' = ''abc123''"
    by (simp add: final_segment_def)
  have "Index ''abc123'' ''watch?v='' = None" by simp
  then have none2: "\<forall>k. \<not> occurs_at ''watch?v='' ''abc123'' k"
    unfolding Index_None_iff .
  have slash2: "CHR ''/'' \<in> set ''https://youtu.be/abc123''" by simp
  have two: "ytVideoIdFromUrl ''https://youtu.be/abc123'' = Inr ''abc123''"
    using slash2 none2 ytVideoIdFromUrl_segment_marker_amp [of "''https://youtu.be/abc123''" 0 0 "[]"]
    unfolding seg2 by blast
  have slash3: "CHR ''/'' \<notin> set ''abc123''" by simp
  have three: "ytVideoIdFromUrl ''abc123'' = Inl (Errorf ''invalid url'' [])"
    using slash3 ytVideoIdFromUrl_segment_marker_amp [of "''abc123''" 0 0 "[]"]
    by blast
  have seg4: "final_segment ''https://www.youtube.com/watch?v=a&b=1watch?v=c'' = ''watch?v=a&b=1watch?v=c''"
    by (simp add: final_segment_def)
  have "Index ''watch?v=a&b=1watch?v=c'' ''watch?v='' = Some 0" by simp
  then have first4: "occurs_at ''watch?v='' ''watch?v=a&b=1watch?v=c'' 0
      \<and> (\<forall>k<0. \<not> occurs_at ''watch?v='' ''watch?v=a&b=1watch?v=c'' k)"
    unfolding Index_Some_iff .
  have "Index ''a&b=1watch?v=c'' ''watch?v='' = Some 5" by simp
  then have "occurs_at ''watch?v='' ''a&b=1watch?v=c'' 5
      \<and> (\<forall>k<5. \<not> occurs_at ''watch?v='' ''a&b=1watch?v=c'' k)"
    unfolding Index_Some_iff .
  then have nxt: "occurs_at ''watch?v='' (drop (0 + length ''watch?v='') ''watch?v=a&b=1watch?v=c'') 5
      \<and> (\<forall>k<5. \<not> occurs_at ''watch?v=''
            (drop (0 + length ''watch?v='') ''watch?v=a&b=1watch?v=c'') k)"
    by simp
  have slash4: "CHR ''/'' \<in> set ''https://www.youtube.com/watch?v=a&b=1watch?v=c''" by simp
  have "ytVideoIdFromUrl ''https://www.youtube.com/watch?v=a&b=1watch?v=c''
      = Inr (before_amp (take 5 (drop (0 + length ''watch?v='') ''watch?v=a&b=1watch?v=c'')))"
    using slash4 first4 nxt ytVideoIdFromUrl_segment_marker_amp
      [of "''https://www.youtube.com/watch?v=a&b=1watch?v=c''" 0 5 "[]"]
    unfolding seg4 by blast
  then have four: "ytVideoIdFromUrl ''https://www.youtube.com/watch?v=a&b=1watch?v=c'' = Inr ''a''"
    by (simp add: before_amp_def)
  from one two three four show ?thesis by blast
qed

section \<open>Properties of the Ref-Graph\<close>

lemma SetLabelledRef_state:
  "fst (SetLabelledRef s key val) = s\<lparr>LabelledRefs := (LabelledRefs s)(key \<mapsto> val)\<rparr>"
  by (simp add: SetLabelledRef_def split: option.split)

lemma SetLabelledRef_result:
  "snd (SetLabelledRef s key val) = (LabelledRefs s key = None)"
  by (simp add: SetLabelledRef_def split: option.split)

text \<open>
  C3. \<open>SetLabelledRef\<close> on a label that is not in the labelled-ref map stores the pair
  and returns true; on a label that is already there it overwrites the stored reference
  and returns false; in both cases \<open>GetLabelledRef\<close> on that label afterwards returns
  the reference just stored, with true, so that after a second \<open>SetLabelledRef\<close> the
  first value is gone.
\<close>

theorem SetLabelledRef_new_or_overwrite:
  "(LabelledRefs s key = None \<longrightarrow>
      SetLabelledRef s key val = (s\<lparr>LabelledRefs := (LabelledRefs s)(key \<mapsto> val)\<rparr>, True))
   \<and> (LabelledRefs s key = Some old \<longrightarrow>
      SetLabelledRef s key val = (s\<lparr>LabelledRefs := (LabelledRefs s)(key \<mapsto> val)\<rparr>, False))
   \<and> GetLabelledRef (fst (SetLabelledRef s key val)) key = (val, True)
   \<and> snd (SetLabelledRef (fst (SetLabelledRef s key val)) key val') = False
   \<and> GetLabelledRef (fst (SetLabelledRef (fst (SetLabelledRef s key val)) key val')) key
        = (val', True)"
  by (simp add: SetLabelledRef_state SetLabelledRef_result GetLabelledRef_def)
     (simp add: SetLabelledRef_def)

theorem SetLabelledRef_new_or_overwrite_witness:
  "LabelledRefs (NewStreamMeta 0) ''next'' = None
   \<and> SetLabelledRef (NewStreamMeta 0) ''next'' (Ref ''a'' 1)
       = ((NewStreamMeta 0)\<lparr>LabelledRefs := (LabelledRefs (NewStreamMeta 0))(''next'' \<mapsto> Ref ''a'' 1)\<rparr>, True)
   \<and> LabelledRefs (fst (SetLabelledRef (NewStreamMeta 0) ''next'' (Ref ''a'' 1))) ''next''
       = Some (Ref ''a'' 1)
   \<and> SetLabelledRef (fst (SetLabelledRef (NewStreamMeta 0) ''next'' (Ref ''a'' 1))) ''next'' (Ref ''b'' 2)
       = ((fst (SetLabelledRef (NewStreamMeta 0) ''next'' (Ref ''a'' 1)))
            \<lparr>LabelledRefs := (LabelledRefs (fst (SetLabelledRef (NewStreamMeta 0) ''next'' (Ref ''a'' 1))))
                (''next'' \<mapsto> Ref ''b'' 2)\<rparr>, False)"
proof -
  have new: "LabelledRefs (NewStreamMeta 0) ''next'' = None"
    by (simp add: NewStreamMeta_def)
  have old: "LabelledRefs (fst (SetLabelledRef (NewStreamMeta 0) ''next'' (Ref ''a'' 1))) ''next''
       = Some (Ref ''a'' 1)"
    by (simp add: SetLabelledRef_state)
  from new old
    SetLabelledRef_new_or_overwrite [of "NewStreamMeta 0" "''next''" "Ref ''a'' 1" NilRef NilRef]
    SetLabelledRef_new_or_overwrite
      [of "fst (SetLabelledRef (NewStreamMeta 0) ''next'' (Ref ''a'' 1))" "''next''" "Ref ''b'' 2"
          "Ref ''a'' 1" NilRef]
  show ?thesis by blast
qed

text \<open>
  C5. \<open>AddParentRef\<close> is idempotent. With a reference whose identity is not yet a key
  of the parent-ref map the call returns true and stores the reference under its
  identity; a second call with any reference of the same identity returns false and
  returns the very same state, so the parent-ref map, its key set, its size and the
  members that \<open>GetParentRefs\<close> yields are unchanged. The second call leaves the state
  alone whatever the first one found.
\<close>

theorem AddParentRef_idempotent:
  "(ParentRefs s u = None \<longrightarrow>
      AddParentRef s (Ref u a)
        = Inr (s\<lparr>ParentRefs := (ParentRefs s)(u \<mapsto> Ref u a)\<rparr>, True))
   \<and> (\<forall>s' r. AddParentRef s (Ref u a) = Inr (s', r) \<longrightarrow>
        ParentRefs s' u \<noteq> None
        \<and> AddParentRef s' (Ref u b) = Inr (s', False)
        \<and> (\<forall>s'' r'. AddParentRef s' (Ref u b) = Inr (s'', r') \<longrightarrow>
              r' = False
              \<and> ParentRefs s'' = ParentRefs s'
              \<and> card (dom (ParentRefs s'')) = card (dom (ParentRefs s'))
              \<and> GetParentRefs s'' = GetParentRefs s'))"
  by (auto simp: AddParentRef_def split: option.splits)

theorem AddParentRef_idempotent_witness:
  "ParentRefs (NewStreamMeta 0) ''playlist-1'' = None
   \<and> AddParentRef (NewStreamMeta 0) (Ref ''playlist-1'' 7)
       = Inr ((NewStreamMeta 0)\<lparr>ParentRefs := (ParentRefs (NewStreamMeta 0))(''playlist-1'' \<mapsto> Ref ''playlist-1'' 7)\<rparr>, True)
   \<and> AddParentRef ((NewStreamMeta 0)\<lparr>ParentRefs := (ParentRefs (NewStreamMeta 0))(''playlist-1'' \<mapsto> Ref ''playlist-1'' 7)\<rparr>)
         (Ref ''playlist-1'' 8)
       = Inr ((NewStreamMeta 0)\<lparr>ParentRefs := (ParentRefs (NewStreamMeta 0))(''playlist-1'' \<mapsto> Ref ''playlist-1'' 7)\<rparr>, False)"
proof -
  have new: "ParentRefs (NewStreamMeta 0) ''playlist-1'' = None"
    by (simp add: NewStreamMeta_def)
  from new AddParentRef_idempotent [of "NewStreamMeta 0" "''playlist-1''" 7 8]
  show ?thesis by metis
qed


section \<open>Properties of the stream values\<close>

lemma amp_first:
  "(if length (Split x ''&'') > 1 then Split x ''&'' ! 0 else x) = before_amp x"
  using amp_result [of x] by (simp split: if_splits)

lemma ytVideoIdFromUrl_no_panic: "ytVideoIdFromUrl u \<noteq> Inl (Panicked p)"
  by (simp add: yt_unfold split: option.split)

lemma NewYouTubeStream_Url:
  "\<exists>thumb. NewYouTubeStream now key u =
     Inr (YouTubeStream key
       \<lparr> Kind = STREAM_TYPE_YOUTUBE, Name = '''', Url = before_amp u, Duration = 0,
         Thumbnail = thumb, Meta = NewStreamMeta now \<rparr>)"
proof -
  have unf: "NewYouTubeStream now key u =
     (case ytVideoIdFromUrl (before_amp u) of
           Inl (Panicked p) \<Rightarrow> Inl p
         | r \<Rightarrow>
             Inr (YouTubeStream key
               \<lparr> Kind = STREAM_TYPE_YOUTUBE, Name = '''', Url = before_amp u, Duration = 0,
                 Thumbnail =
                   (case r of
                      Inr ident \<Rightarrow> ''https://img.youtube.com/vi/'' @ ident @ ''/default.jpg''
                    | Inl _ \<Rightarrow> ''''),
                 Meta = NewStreamMeta now \<rparr>))"
    unfolding NewYouTubeStream_def Let_def amp_first ..
  show ?thesis
  proof (cases "ytVideoIdFromUrl (before_amp u)")
    case (Inl f)
    with ytVideoIdFromUrl_no_panic [of "before_amp u"] obtain fm args where "f = Errorf fm args"
      by (cases f) auto
    with Inl show ?thesis unfolding unf by simp
  next
    case (Inr ident)
    then show ?thesis unfolding unf by simp
  qed
qed

text \<open>
  C8. For every stream value, and so for every value that a variant factory returns,
  \<open>UUID()\<close> is the string that \<open>GetStreamURL()\<close> returns, the canonical URL; two
  streams with the same canonical URL have the same identity. The factories store the
  URL they are given; the YouTube factory stores the URL cut before its first \<open>&\<close>,
  and never panics.
\<close>

theorem Stream_UUID_is_GetStreamURL:
  "Stream_UUID st = Stream_GetStreamURL st
   \<and> (Stream_GetStreamURL a = Stream_GetStreamURL b \<longrightarrow> Stream_UUID a = Stream_UUID b)
   \<and> Stream_UUID (NewLocalVideoStream now u) = u
   \<and> Stream_UUID (NewRemoteVideoStream now u) = u
   \<and> Stream_UUID (NewTwitchStream now key u) = u
   \<and> Stream_UUID (NewTwitchClipStream now key u) = u
   \<and> Stream_UUID (NewSoundCloudStream now key u) = u
   \<and> (\<exists>yt. NewYouTubeStream now key u = Inr yt
         \<and> Stream_UUID yt = before_amp u \<and> Stream_GetStreamURL yt = before_amp u)"
proof -
  have same: "Stream_UUID x = Stream_GetStreamURL x" for x
    by (simp add: Stream_UUID_def Stream_GetStreamURL_def UUID_def GetStreamURL_def)
  obtain thumb where "NewYouTubeStream now key u =
     Inr (YouTubeStream key
       \<lparr> Kind = STREAM_TYPE_YOUTUBE, Name = '''', Url = before_amp u, Duration = 0,
         Thumbnail = thumb, Meta = NewStreamMeta now \<rparr>)"
    using NewYouTubeStream_Url by blast
  then have yt: "\<exists>yt. NewYouTubeStream now key u = Inr yt
         \<and> Stream_UUID yt = before_amp u \<and> Stream_GetStreamURL yt = before_amp u"
    by (simp add: Stream_UUID_def Stream_GetStreamURL_def UUID_def GetStreamURL_def)
  have facts: "Stream_UUID (NewLocalVideoStream now u) = u"
    "Stream_UUID (NewRemoteVideoStream now u) = u"
    "Stream_UUID (NewTwitchStream now key u) = u"
    "Stream_UUID (NewTwitchClipStream now key u) = u"
    "Stream_UUID (NewSoundCloudStream now key u) = u"
    by (simp_all add: Stream_UUID_def UUID_def NewLocalVideoStream_def NewRemoteVideoStream_def
        NewTwitchStream_def NewTwitchClipStream_def NewSoundCloudStream_def)
  from same [of st] same [of a] same [of b] yt facts show ?thesis by simp
qed

theorem Stream_UUID_is_GetStreamURL_witness:
  "Stream_GetStreamURL (NewTwitchStream 0 ''k1'' ''https://www.twitch.tv/videos/55555'')
     = Stream_GetStreamURL (NewTwitchStream 9 ''k2'' ''https://www.twitch.tv/videos/55555'')
   \<and> NewTwitchStream 0 ''k1'' ''https://www.twitch.tv/videos/55555''
     \<noteq> NewTwitchStream 9 ''k2'' ''https://www.twitch.tv/videos/55555''
   \<and> Stream_UUID (NewTwitchStream 0 ''k1'' ''https://www.twitch.tv/videos/55555'')
     = Stream_UUID (NewTwitchStream 9 ''k2'' ''https://www.twitch.tv/videos/55555'')"
proof -
  have url: "Stream_GetStreamURL (NewTwitchStream 0 ''k1'' ''https://www.twitch.tv/videos/55555'')
     = Stream_GetStreamURL (NewTwitchStream 9 ''k2'' ''https://www.twitch.tv/videos/55555'')"
    by (simp add: Stream_GetStreamURL_def GetStreamURL_def NewTwitchStream_def)
  have diff: "NewTwitchStream 0 ''k1'' ''https://www.twitch.tv/videos/55555''
     \<noteq> NewTwitchStream 9 ''k2'' ''https://www.twitch.tv/videos/55555''"
    by (simp add: NewTwitchStream_def)
  from url diff
    Stream_UUID_is_GetStreamURL
      [of "NewTwitchStream 0 ''k1'' ''https://www.twitch.tv/videos/55555''"
          "NewTwitchStream 0 ''k1'' ''https://www.twitch.tv/videos/55555''"
          "NewTwitchStream 9 ''k2'' ''https://www.twitch.tv/videos/55555''" 0 "[]" "[]"]
  show ?thesis by blast
qed

text \<open>
  C9, amended. For every stream and every input, \<open>SetInfo\<close> stamps the last-updated
  time before it unmarshals: the unmarshaller is handed the stream already stamped
  with the current time, and \<open>SetInfo\<close> returns what the unmarshaller returns for it.
  Whenever the unmarshaller leaves the last-updated time of its target alone, the
  stream has the new time afterwards, error or not. In particular, when the
  unmarshaller rejects the input and leaves its target as it was given (as
  \<open>json.Unmarshal\<close> does for input that is not well-formed JSON, which it checks before
  it decodes), \<open>SetInfo\<close> returns the error and the stream keeps the new time: the
  operation is not atomic on error. (When the unmarshaller stores a last-updated time
  of the payload and then returns an error, the stream has the time of the payload.)
\<close>

theorem SetInfo_stamps_before_unmarshal:
  "SetInfo Unmarshal now s data = Unmarshal data (s\<lparr>Meta := (Meta s)\<lparr>LastUpdated := now\<rparr>\<rparr>)
   \<and> ((\<forall>t. GetLastUpdated (Metadata (fst (Unmarshal data t))) = GetLastUpdated (Metadata t)) \<longrightarrow>
        GetLastUpdated (Metadata (fst (SetInfo Unmarshal now s data))) = now)
   \<and> ((\<forall>t. Unmarshal data t = (t, Some e)) \<longrightarrow>
        SetInfo Unmarshal now s data = (s\<lparr>Meta := (Meta s)\<lparr>LastUpdated := now\<rparr>\<rparr>, Some e)
        \<and> GetLastUpdated (Metadata (fst (SetInfo Unmarshal now s data))) = now
        \<and> (GetLastUpdated (Metadata s) \<noteq> now \<longrightarrow> fst (SetInfo Unmarshal now s data) \<noteq> s))"
proof -
  have call: "SetInfo Unmarshal now s data
      = Unmarshal data (s\<lparr>Meta := (Meta s)\<lparr>LastUpdated := now\<rparr>\<rparr>)"
    by (simp add: SetInfo_def SetLastUpdated_def)
  have stamped: "GetLastUpdated (Metadata (s\<lparr>Meta := (Meta s)\<lparr>LastUpdated := now\<rparr>\<rparr>)) = now"
    by (simp add: GetLastUpdated_def Metadata_def)
  then have changed:
    "GetLastUpdated (Metadata s) \<noteq> now \<Longrightarrow> s\<lparr>Meta := (Meta s)\<lparr>LastUpdated := now\<rparr>\<rparr> \<noteq> s"
    by (metis (no_types))
  have kept: "GetLastUpdated (Metadata (fst (SetInfo Unmarshal now s data))) = now"
    if "\<forall>t. GetLastUpdated (Metadata (fst (Unmarshal data t))) = GetLastUpdated (Metadata t)"
    using that stamped unfolding call by metis
  from call stamped changed kept show ?thesis by simp
qed

text \<open>
  C9 as stated fails for an input that makes \<open>json.Unmarshal\<close> store fields and then
  return an error. With the stream stamped 7, the current time 42 and the document
  \<open>{"metadata":{"lastUpdated":"1970-01-01T00:00:03Z"},"duration":"x"}\<close> (instant 3),
  \<open>SetInfo\<close> returns the type error, and the last-updated time is 3, the one of the
  payload: it has not been advanced.
\<close>

theorem SetInfo_error_with_payload_stamp:
  \<open>GetLastUpdated (Metadata (embedded (NewTwitchStream 7 ''k'' ''u''))) = 7
   \<and> snd (SetInfo (Unmarshal_lastUpdated_bad_duration 3) 42
        (embedded (NewTwitchStream 7 ''k'' ''u''))
        ''{"metadata":{"lastUpdated":"1970-01-01T00:00:03Z"},"duration":"x"}'')
      = Some (Errorf ''json: cannot unmarshal %s into Go struct field %s of type %s''
                [''string'', ''StreamSchema.duration'', ''float64''])
   \<and> GetLastUpdated (Metadata (fst (SetInfo (Unmarshal_lastUpdated_bad_duration 3) 42
        (embedded (NewTwitchStream 7 ''k'' ''u''))
        ''{"metadata":{"lastUpdated":"1970-01-01T00:00:03Z"},"duration":"x"}'')))
      = 3\<close>
  by (simp add: SetInfo_def Unmarshal_lastUpdated_bad_duration_def SetLastUpdated_def
      GetLastUpdated_def Metadata_def NewTwitchStream_def NewStreamMeta_def)

theorem SetInfo_stamps_before_unmarshal_witness:
  "SetInfo (\<lambda>d t. if d = ''{'' then (t, Some (Errorf ''unexpected end of JSON input'' []))
                   else (t, None))
      42 (embedded (NewTwitchStream 7 ''k'' ''u'')) ''{''
     = ((embedded (NewTwitchStream 7 ''k'' ''u''))
          \<lparr>Meta := (Meta (embedded (NewTwitchStream 7 ''k'' ''u'')))\<lparr>LastUpdated := 42\<rparr>\<rparr>,
        Some (Errorf ''unexpected end of JSON input'' []))
   \<and> GetLastUpdated (Metadata (embedded (NewTwitchStream 7 ''k'' ''u''))) = 7
   \<and> GetLastUpdated (Metadata (fst (SetInfo
        (\<lambda>d t. if d = ''{'' then (t, Some (Errorf ''unexpected end of JSON input'' []))
                else (t, None))
        42 (embedded (NewTwitchStream 7 ''k'' ''u'')) ''{''))) = 42"
proof -
  let ?U = "\<lambda>(d::string) (t::StreamSchema).
      if d = ''{'' then (t, Some (Errorf ''unexpected end of JSON input'' [])) else (t, None)"
  have rejects: "\<forall>t. ?U ''{'' t = (t, Some (Errorf ''unexpected end of JSON input'' []))"
    by simp
  have before: "GetLastUpdated (Metadata (embedded (NewTwitchStream 7 ''k'' ''u''))) = 7"
    by (simp add: GetLastUpdated_def Metadata_def NewTwitchStream_def NewStreamMeta_def)
  from rejects before
    SetInfo_stamps_before_unmarshal
      [of ?U 42 "embedded (NewTwitchStream 7 ''k'' ''u'')" "''{''"
          "Errorf ''unexpected end of JSON input'' []"]
  show ?thesis by blast
qed

text \<open>
  C10. \<open>FetchMetadata\<close> of a bare \<open>StreamSchema\<close> calls the callback once, in the call
  itself, with the stream, nil data and an error made from the stream's kind, and
  starts no goroutine (and so reaches no network). A callback that records its calls
  has recorded exactly that one call afterwards.
\<close>

theorem StreamSchema_FetchMetadata_calls_back_once:
  "StreamSchema_FetchMetadata s callback w
     = (callback (BareStreamSchema s) None
          (Some (Errorf ''Stream schema of kind %q has no FetchMetadata method implemented.''
                   [GetKind s]))
          w,
        [])
   \<and> StreamSchema_FetchMetadata s (\<lambda>st data err calls. calls @ [(st, data, err)]) []
     = ([(BareStreamSchema s, None,
          Some (Errorf ''Stream schema of kind %q has no FetchMetadata method implemented.''
                  [GetKind s]))],
        [])
   \<and> snd (StreamSchema_FetchMetadata s callback w) = []"
  by (simp add: StreamSchema_FetchMetadata_def GetKind_def)

text \<open>
  For contrast, the YouTube variant calls back itself only when the id cannot be
  extracted; otherwise it starts a goroutine and returns.
\<close>

lemma YouTubeStream_FetchMetadata_spawns:
  "ytVideoIdFromUrl (Url s) = Inr videoId \<Longrightarrow>
   YouTubeStream_FetchMetadata apiKey s callback w = Inr (w, [YouTubeFetch videoId apiKey])"
  by (simp add: YouTubeStream_FetchMetadata_def)

lemma sdiv_1000_bounds:
  fixes k :: int
  shows "\<bar>k sdiv 1000\<bar> \<le> \<bar>k\<bar>"
proof -
  have "\<bar>k sdiv 1000\<bar> = \<bar>k\<bar> div 1000"
    by (simp add: signed_divide_int_def abs_mult sgn_if)
  also have "\<dots> \<le> \<bar>k\<bar>"
    by (metis abs_ge_zero div_by_1 zdiv_mono2 zero_less_one one_le_numeral)
  finally show ?thesis .
qed

lemma sint_int_quo_1000: "sint (int_quo d 1000) = sint d sdiv 1000"
proof -
  have lo: "- (2 ^ 63) \<le> sint d" and hi: "sint d < 2 ^ 63"
    using sint_ge [of d] sint_lt [of d] by simp_all
  have b: "\<bar>sint d sdiv 1000\<bar> \<le> \<bar>sint d\<bar>" by (rule sdiv_1000_bounds)
  have q: "sint d sdiv 1000 = sgn (sint d) * (\<bar>sint d\<bar> div 1000)"
    by (simp add: signed_divide_int_def)
  have "\<bar>sint d\<bar> div 1000 < 2 ^ 63"
    using lo hi by (cases "0 \<le> sint d") (simp_all add: abs_if)
  with b lo hi q have "- (2 ^ 63) \<le> sint d sdiv 1000" "sint d sdiv 1000 < 2 ^ 63"
    by (auto simp: sgn_if abs_if split: if_splits)
  then have "sint (word_of_int (sint d sdiv 1000) :: 64 word) = sint d sdiv 1000"
    by (simp add: sint_sbintrunc' signed_take_bit_int_eq_self)
  then show ?thesis by (simp add: int_quo_def)
qed

lemma round_to_float64_exact: "\<bar>k\<bar> < 2 ^ 53 \<Longrightarrow> round_to_float64 k = real_of_int k"
  using bitlen_le_iff_power [of "\<bar>k\<bar>" 53]
  by (simp add: round_to_float64_def Let_def)

text \<open>
  What the code computes for every duration: the milliseconds divided by 1000 as
  integers, rounded towards zero, then converted. The conversion changes nothing
  while the quotient is below \<open>2 ^ 53\<close> in absolute value.
\<close>

lemma scVideoItem_duration:
  "item_duration (scVideoItem r) = round_to_float64 (sint (sc_Duration r) sdiv 1000)"
  by (simp add: scVideoItem_def float64_of_int_def sint_int_quo_1000)

lemma scVideoItem_duration_exact:
  "\<bar>sint (sc_Duration r) sdiv 1000\<bar> < 2 ^ 53 \<Longrightarrow>
   item_duration (scVideoItem r) = real_of_int (sint (sc_Duration r) sdiv 1000)"
  by (simp add: scVideoItem_duration round_to_float64_exact)

text \<open>
  C1. The claim asks for the duration in milliseconds divided by 1000. The code divides
  the two as integers and converts the quotient afterwards, so the fraction of a
  second is lost: 1500 ms gives 1 and not 1.5. 180000 ms gives 180.
\<close>

theorem scVideoItem_duration_truncates:
  "item_duration (scVideoItem \<lparr> sc_Title = ''t'', sc_Duration = 1500, sc_User_Thumb = ''a'' \<rparr>) = 1
   \<and> (1500 :: real) / 1000 \<noteq> 1
   \<and> item_duration (scVideoItem \<lparr> sc_Title = ''t'', sc_Duration = 180000, sc_User_Thumb = ''a'' \<rparr>)
       = 180"
  by (simp add: scVideoItem_duration_exact signed_divide_int_def)

section \<open>Properties of the socket server\<close>

lemma callbacks_On:
  "callbacks (On s e cb) e' =
     (if e' = e then Some ((case callbacks s e of None \<Rightarrow> [] | Some c \<Rightarrow> c) @ [cb])
      else callbacks s e')"
  by (simp add: On_def Let_def split: option.split)

lemma callbacks_fold_On:
  "callbacks (fold (\<lambda>r s. On s (fst r) (snd r)) regs s) e =
     (if filter (\<lambda>r. fst r = e) regs = [] then callbacks s e
      else Some ((case callbacks s e of None \<Rightarrow> [] | Some c \<Rightarrow> c)
                 @ map snd (filter (\<lambda>r. fst r = e) regs)))"
proof (induction regs arbitrary: s)
  case Nil
  show ?case by simp
next
  case (Cons r regs)
  show ?case
    by (simp add: Cons callbacks_On split: option.split)
qed

lemma fold_recording:
  "fold (\<lambda>callback. callback conn) (map (\<lambda>i c l. l @ [(i, c)]) ids) l0
     = l0 @ map (\<lambda>i. (i, conn)) ids"
  by (induction ids arbitrary: l0) simp_all

lemma Emit_registered:
  "Emit (fold (\<lambda>r s. On s (fst r) (snd r)) regs NewServer) e conn w
     = fold (\<lambda>callback. callback conn) (map snd (filter (\<lambda>r. fst r = e) regs)) w"
  by (simp add: Emit_def callbacks_fold_On NewServer_def)

text \<open>
  C6. \<open>On\<close> appends the listener to the list of its event name and leaves the lists of
  the other names alone. After any sequence of registrations on a new server, \<open>Emit\<close>
  runs exactly the listeners registered under the emitted name, each with the
  connection, in the order of their registration; listeners that record their calls
  have recorded them in that order. \<open>Emit\<close> on a name with no listener returns the
  state as it was.
\<close>

theorem Emit_runs_listeners_in_registration_order:
  "callbacks (On s e cb) e = Some ((case callbacks s e of None \<Rightarrow> [] | Some c \<Rightarrow> c) @ [cb])
   \<and> (e' \<noteq> e \<longrightarrow> callbacks (On s e cb) e' = callbacks s e')
   \<and> Emit (fold (\<lambda>r s. On s (fst r) (snd r)) regs NewServer) e conn w
       = fold (\<lambda>callback. callback conn) (map snd (filter (\<lambda>r. fst r = e) regs)) w
   \<and> Emit (fold (\<lambda>r s. On s (fst r) (snd r)) (map (\<lambda>i. (e, \<lambda>c l. l @ [(i, c)])) ids) NewServer)
        e conn []
       = map (\<lambda>i :: nat. (i, conn)) ids
   \<and> (callbacks s e = None \<longrightarrow> Emit s e conn w = w)
   \<and> (callbacks s e = Some [] \<longrightarrow> Emit s e conn w = w)
   \<and> (filter (\<lambda>r. fst r = e) regs = [] \<longrightarrow>
        Emit (fold (\<lambda>r s. On s (fst r) (snd r)) regs NewServer) e conn w = w)"
proof -
  have rec: "Emit (fold (\<lambda>r s. On s (fst r) (snd r)) (map (\<lambda>i. (e, \<lambda>c l. l @ [(i, c)])) ids) NewServer)
        e conn []
       = map (\<lambda>i :: nat. (i, conn)) ids"
    using fold_recording [of conn ids "[]"]
    by (simp add: Emit_registered comp_def)
  show ?thesis
    using rec by (simp add: callbacks_On Emit_registered) (simp add: Emit_def)
qed

theorem Emit_runs_listeners_in_registration_order_witness:
  "callbacks (NewServer :: nat list Server) ''connection'' = None
   \<and> Emit (NewServer :: nat list Server) ''connection'' \<lparr> conn_id = '''', conn_transport = 3 \<rparr> [5] = [5]
   \<and> ''message'' \<noteq> ''connection''
   \<and> callbacks (On (NewServer :: nat list Server) ''connection'' (\<lambda>c l. l @ [1])) ''message'' = None
   \<and> Emit (fold (\<lambda>r s. On s (fst r) (snd r))
        [(''connection'', \<lambda>c l. l @ [1]), (''message'', \<lambda>c l. l @ [2]),
         (''connection'', \<lambda>c l. l @ [3 :: nat])] NewServer)
        ''connection'' \<lparr> conn_id = '''', conn_transport = 3 \<rparr> [] = [1, 3]"
proof -
  have none: "callbacks (NewServer :: nat list Server) ''connection'' = None"
    by (simp add: NewServer_def)
  have other: "''message'' \<noteq> ''connection''" by simp
  have a: "Emit (NewServer :: nat list Server) ''connection'' \<lparr> conn_id = '''', conn_transport = 3 \<rparr> [5] = [5]"
    using none Emit_runs_listeners_in_registration_order
      [of NewServer "''connection''" "\<lambda>c l. l" "''message''" "[]"
          "\<lparr> conn_id = '''', conn_transport = 3 \<rparr>" "[5]" "[]"]
    by blast
  have b: "callbacks (On (NewServer :: nat list Server) ''connection'' (\<lambda>c l. l @ [1])) ''message''
      = callbacks (NewServer :: nat list Server) ''message''"
    using other Emit_runs_listeners_in_registration_order
      [of NewServer "''connection''" "\<lambda>c l. l @ [1]" "''message''" "[]"
          "\<lparr> conn_id = '''', conn_transport = 3 \<rparr>" "[]" "[]"]
    by blast
  have c: "Emit (fold (\<lambda>r s. On s (fst r) (snd r))
        [(''connection'', \<lambda>c l. l @ [1]), (''message'', \<lambda>c l. l @ [2]),
         (''connection'', \<lambda>c l. l @ [3 :: nat])] NewServer)
        ''connection'' \<lparr> conn_id = '''', conn_transport = 3 \<rparr> []
      = fold (\<lambda>callback. callback \<lparr> conn_id = '''', conn_transport = 3 \<rparr>)
          (map snd (filter (\<lambda>r. fst r = ''connection'')
            [(''connection'', \<lambda>c l. l @ [1]), (''message'', \<lambda>c l. l @ [2]),
             (''connection'', \<lambda>c l. l @ [3 :: nat])])) []"
    using Emit_runs_listeners_in_registration_order
      [of NewServer "''connection''" "\<lambda>c l. l" "''message''"
          "[(''connection'', \<lambda>c l. l @ [1]), (''message'', \<lambda>c l. l @ [2]),
            (''connection'', \<lambda>c l. l @ [3 :: nat])]"
          "\<lparr> conn_id = '''', conn_transport = 3 \<rparr>" "[]" "[]"]
    by blast
  from none other a b c show ?thesis by (simp add: NewServer_def)
qed

lemma before_upgrade_fields:
  "constructed (snd (before_upgrade ext r st)) = constructed st"
  "joined (snd (before_upgrade ext r st)) = joined st"
  "handled (snd (before_upgrade ext r st)) = handled st"
  "listener_state (snd (before_upgrade ext r st)) = listener_state st"
  "header (snd (before_upgrade ext r st))
     = (header st)(''Access-Control-Allow-Origin'' \<mapsto> getClientOrigin r,
                   ''Access-Control-Allow-Credentials'' \<mapsto> ''true'')"
  by (simp_all add: before_upgrade_def Let_def Printf_def Header_Set_def NamespaceByName_def
      NewNamespace_def split: sum.split option.split)

lemma before_upgrade_registry:
  "registry (snd (before_upgrade ext r st)) =
     (let nsName = (case NamespaceFromRequest ext r of Inl err \<Rightarrow> DEFAULT_NAMESPACE | Inr n \<Rightarrow> n)
      in case registry st nsName of
           Some namespace \<Rightarrow> registry st
         | None \<Rightarrow> (registry st)(nsName \<mapsto> \<lparr> ns_name = nsName \<rparr>))"
  by (simp add: before_upgrade_def Let_def Printf_def Header_Set_def NamespaceByName_def
      NewNamespace_def split: sum.split option.split)

text \<open>
  C7. When \<open>websocket.Upgrade\<close> fails, \<open>ServeHTTP\<close> writes the log line of the failure
  and returns: the state it leaves is the state reached just before the upgrade, with
  that line added. No connection has been constructed, none has joined a namespace, no
  listener of the event bus has run, none has been handed to the receive loop. The
  registry of namespaces is the one before the request, with the namespace of the
  request added when it was not there. (The two access-control headers set on the
  response writer of the request, and the log lines, are the only other writes.)
\<close>

theorem ServeHTTP_upgrade_failure:
  assumes "Upgrade ext r (header (snd (before_upgrade ext r st)))
             MAX_READ_BUF_SIZE MAX_WRITE_BUF_SIZE = Inl err"
  shows "ServeHTTP s ext r st
           = Printf (LogUpgradeFailed (RequestURL r) err) (snd (before_upgrade ext r st))
         \<and> constructed (ServeHTTP s ext r st) = constructed st
         \<and> joined (ServeHTTP s ext r st) = joined st
         \<and> handled (ServeHTTP s ext r st) = handled st
         \<and> listener_state (ServeHTTP s ext r st) = listener_state st
         \<and> registry (ServeHTTP s ext r st) =
             (let nsName = (case NamespaceFromRequest ext r of
                              Inl err \<Rightarrow> DEFAULT_NAMESPACE | Inr n \<Rightarrow> n)
              in case registry st nsName of
                   Some namespace \<Rightarrow> registry st
                 | None \<Rightarrow> (registry st)(nsName \<mapsto> \<lparr> ns_name = nsName \<rparr>))
         \<and> header (ServeHTTP s ext r st)
             = (header st)(''Access-Control-Allow-Origin'' \<mapsto> getClientOrigin r,
                           ''Access-Control-Allow-Credentials'' \<mapsto> ''true'')
         \<and> last (log_lines (ServeHTTP s ext r st)) = LogUpgradeFailed (RequestURL r) err"
proof -
  have eq: "ServeHTTP s ext r st
      = Printf (LogUpgradeFailed (RequestURL r) err) (snd (before_upgrade ext r st))"
    using assms by (simp add: ServeHTTP_def split_beta)
  show ?thesis
    unfolding eq using before_upgrade_registry [of ext r st]
    by (simp add: Printf_def before_upgrade_fields)
qed

theorem ServeHTTP_upgrade_failure_witness:
  "Upgrade \<lparr> NamespaceFromRequest = (\<lambda>r. Inr ''room1''),
             Upgrade = (\<lambda>r h rd wr. Inl (Errorf ''websocket: not a websocket handshake'' [])) \<rparr>
     \<lparr> Referer = ''http://example.com/r/room1'', RequestURL = ''/ws'' \<rparr>
     (header (snd (before_upgrade
        \<lparr> NamespaceFromRequest = (\<lambda>r. Inr ''room1''),
          Upgrade = (\<lambda>r h rd wr. Inl (Errorf ''websocket: not a websocket handshake'' [])) \<rparr>
        \<lparr> Referer = ''http://example.com/r/room1'', RequestURL = ''/ws'' \<rparr>
        \<lparr> log_lines = [], header = Map.empty, registry = Map.empty, constructed = [],
          joined = [], handled = [], listener_state = (0 :: nat) \<rparr>)))
     MAX_READ_BUF_SIZE MAX_WRITE_BUF_SIZE
     = Inl (Errorf ''websocket: not a websocket handshake'' [])
   \<and> constructed (ServeHTTP (On NewServer ''connection'' (\<lambda>c n. Suc n))
        \<lparr> NamespaceFromRequest = (\<lambda>r. Inr ''room1''),
          Upgrade = (\<lambda>r h rd wr. Inl (Errorf ''websocket: not a websocket handshake'' [])) \<rparr>
        \<lparr> Referer = ''http://example.com/r/room1'', RequestURL = ''/ws'' \<rparr>
        \<lparr> log_lines = [], header = Map.empty, registry = Map.empty, constructed = [],
          joined = [], handled = [], listener_state = (0 :: nat) \<rparr>) = []
   \<and> listener_state (ServeHTTP (On NewServer ''connection'' (\<lambda>c n. Suc n))
        \<lparr> NamespaceFromRequest = (\<lambda>r. Inr ''room1''),
          Upgrade = (\<lambda>r h rd wr. Inl (Errorf ''websocket: not a websocket handshake'' [])) \<rparr>
        \<lparr> Referer = ''http://example.com/r/room1'', RequestURL = ''/ws'' \<rparr>
        \<lparr> log_lines = [], header = Map.empty, registry = Map.empty, constructed = [],
          joined = [], handled = [], listener_state = (0 :: nat) \<rparr>) = 0
   \<and> registry (ServeHTTP (On NewServer ''connection'' (\<lambda>c n. Suc n))
        \<lparr> NamespaceFromRequest = (\<lambda>r. Inr ''room1''),
          Upgrade = (\<lambda>r h rd wr. Inl (Errorf ''websocket: not a websocket handshake'' [])) \<rparr>
        \<lparr> Referer = ''http://example.com/r/room1'', RequestURL = ''/ws'' \<rparr>
        \<lparr> log_lines = [], header = Map.empty, registry = Map.empty, constructed = [],
          joined = [], handled = [], listener_state = (0 :: nat) \<rparr>) ''room1''
       = Some \<lparr> ns_name = ''room1'' \<rparr>"
proof -
  let ?ext = "\<lparr> NamespaceFromRequest = (\<lambda>r. Inr ''room1''),
      Upgrade = (\<lambda>r h rd wr. Inl (Errorf ''websocket: not a websocket handshake'' [])) \<rparr>"
  let ?r = "\<lparr> Referer = ''http://example.com/r/room1'', RequestURL = ''/ws'' \<rparr>"
  let ?st = "\<lparr> log_lines = [], header = Map.empty, registry = Map.empty, constructed = [],
      joined = [], handled = [], listener_state = (0 :: nat) \<rparr>"
  let ?s = "On NewServer ''connection'' (\<lambda>c n. Suc n) :: nat Server"
  have fails: "Upgrade ?ext ?r (header (snd (before_upgrade ?ext ?r ?st)))
      MAX_READ_BUF_SIZE MAX_WRITE_BUF_SIZE
      = Inl (Errorf ''websocket: not a websocket handshake'' [])"
    by simp
  note all = ServeHTTP_upgrade_failure [OF fails, of ?s]
  from all have "constructed (ServeHTTP ?s ?ext ?r ?st) = constructed ?st" by blast
  then have c: "constructed (ServeHTTP ?s ?ext ?r ?st) = []" by simp
  from all have "listener_state (ServeHTTP ?s ?ext ?r ?st) = listener_state ?st" by blast
  then have l: "listener_state (ServeHTTP ?s ?ext ?r ?st) = 0" by simp
  from all have "registry (ServeHTTP ?s ?ext ?r ?st) =
      (let nsName = (case NamespaceFromRequest ?ext ?r of
                       Inl err \<Rightarrow> DEFAULT_NAMESPACE | Inr n \<Rightarrow> n)
       in case registry ?st nsName of
            Some namespace \<Rightarrow> registry ?st
          | None \<Rightarrow> (registry ?st)(nsName \<mapsto> \<lparr> ns_name = nsName \<rparr>))"
    by blast
  then have g: "registry (ServeHTTP ?s ?ext ?r ?st) ''room1'' = Some \<lparr> ns_name = ''room1'' \<rparr>"
    by (simp add: Let_def)
  from fails c l g show ?thesis by blast
qed

lemma ServeHTTP_upgrade_success:
  assumes "Upgrade ext r (header (snd (before_upgrade ext r st)))
             MAX_READ_BUF_SIZE MAX_WRITE_BUF_SIZE = Inr conn"
  shows "constructed (ServeHTTP s ext r st)
           = constructed st @ [\<lparr> conn_id = '''', conn_transport = conn \<rparr>]"
    and "handled (ServeHTTP s ext r st)
           = handled st @ [\<lparr> conn_id = '''', conn_transport = conn \<rparr>]"
    and "listener_state (ServeHTTP s ext r st)
           = Emit s ''connection'' \<lparr> conn_id = '''', conn_transport = conn \<rparr> (listener_state st)"
  using assms
  by (simp_all add: ServeHTTP_def split_beta Let_def NewConnection_def Join_def Handle_def
      before_upgrade_fields)

end
